theory Spec2Isabelle
  imports Complex_Main "HOL-Library.Char_ord" "HOL-Library.List_Lexorder" "HOL-Library.Multiset"
begin

section \<open>Data model of the workoutLogger component\<close>

text \<open>
  The component is the class \<^verbatim>\<open>WorkoutLogger\<close> of
  \<^verbatim>\<open>force-app/main/default/lwc/workoutLogger/workoutLogger.js\<close>.
  Its tracked fields become the record \<open>component\<close>; every handler becomes a function
  from the component before to the component after, together with the list of effects
  (remote calls, toasts, console output, widget feedback) it produced, in order.
  A handler is followed from its first statement to its last, each awaited call being
  answered before the next statement runs; no second handler runs in between.

  A record returned by the backend for one logged set. Only the fields the component
  reads are kept. A field the backend left out (\<^verbatim>\<open>undefined\<close> or \<^verbatim>\<open>null\<close>) is
  \<open>None\<close>. Rep counts and set ordinals are whole numbers; weights are exact decimals
  (the code only compares weights, it never adds them).
\<close>

record workout_set =
  Exercise__c :: "string option"
  exerciseName :: "string option"
  Reps :: "int option"
  Weight_Kg :: "rat option"
  SetCount :: "int option"

record session =
  session_Id :: string
  Session_Date__c :: string

record exercise =
  exercise_Id :: string
  exercise_Name :: string

record option_item =
  label :: string
  item_value :: string

record component =
  sessionId :: "string option"
  sessionExists :: bool
  sessionDate :: string
  muscleGroupOptions :: "option_item list"
  selectedMuscleGroup :: "string option"
  exerciseOptions :: "option_item list"
  selectedExerciseId :: "string option"
  reps :: "string option"
  weight :: "string option"
  unit_field :: string
  rpe :: "string option"
  notes_field :: "string option"
  loggedSets :: "workout_set list"
  allLoggedSets :: "workout_set list"
  isLoading :: bool
  tableVisible :: bool
  totalSets :: nat
  uniqueExercises :: nat
  totalReps :: int
  maxWeight :: rat
  sortedBy :: string
  sortedDirection :: string

text \<open>The field initialisers of the class (lines 14 to 43).\<close>

definition initial_component :: component where
  "initial_component =
     \<lparr> sessionId = None, sessionExists = False, sessionDate = [],
       muscleGroupOptions = [], selectedMuscleGroup = None,
       exerciseOptions = [], selectedExerciseId = None,
       reps = None, weight = None, unit_field = ''kg'', rpe = None, notes_field = None,
       loggedSets = [], allLoggedSets = [], isLoading = False, tableVisible = True,
       totalSets = 0, uniqueExercises = 0, totalReps = 0, maxWeight = 0,
       sortedBy = ''SetCount'', sortedDirection = ''asc'' \<rparr>"

section \<open>Statistics\<close>

text \<open>
  \<^verbatim>\<open>set.Reps || 0\<close> and \<^verbatim>\<open>set.Weight_Kg || 0\<close>: a missing number, and the
  number zero itself, give zero.
\<close>

definition reps_or_zero :: "workout_set \<Rightarrow> int" where
  "reps_or_zero s = (case Reps s of None \<Rightarrow> 0 | Some r \<Rightarrow> if r = 0 then 0 else r)"

definition weight_or_zero :: "workout_set \<Rightarrow> rat" where
  "weight_or_zero s = (case Weight_Kg s of None \<Rightarrow> 0 | Some w \<Rightarrow> if w = 0 then 0 else w)"

text \<open>
  \<^verbatim>\<open>Math.max(...args)\<close>: the largest argument; with no argument at all the result is
  minus infinity, which is \<open>None\<close> here.
\<close>

fun Math_max :: "rat list \<Rightarrow> rat option" where
  "Math_max [] = None"
| "Math_max (x # xs) = (case Math_max xs of None \<Rightarrow> Some x | Some m \<Rightarrow> Some (max x m))"

text \<open>\<^verbatim>\<open>new Set(xs).size\<close>: the number of distinct elements of \<open>xs\<close>.\<close>

definition Set_size :: "'a list \<Rightarrow> nat" where
  "Set_size xs = length (remdups xs)"

text \<open>
  \<^verbatim>\<open>calculateStatistics\<close> (lines 218 to 230). \<^verbatim>\<open>Math.max\<close> is always called with the
  trailing argument \<open>0\<close>, so its argument list is never empty.
\<close>

definition calculateStatistics :: "component \<Rightarrow> component" where
  "calculateStatistics c =
     c\<lparr> totalSets := length (allLoggedSets c),
        uniqueExercises := Set_size (map Exercise__c (allLoggedSets c)),
        totalReps := fold (\<lambda>s sum. sum + reps_or_zero s) (allLoggedSets c) 0,
        maxWeight := the (Math_max (map weight_or_zero (allLoggedSets c) @ [0])) \<rparr>"

text \<open>
  The statistic the specification describes for the heaviest set: the largest of the
  weights, a missing weight counting as zero, and zero for an empty list. It follows the
  specification's sentence, not the code, and is compared with the code below.
\<close>

fun spec_maxWeight :: "workout_set list \<Rightarrow> rat" where
  "spec_maxWeight [] = 0"
| "spec_maxWeight (s # ss) =
     fold max (map (\<lambda>t. case Weight_Kg t of None \<Rightarrow> 0 | Some w \<Rightarrow> w) ss)
       (case Weight_Kg s of None \<Rightarrow> 0 | Some w \<Rightarrow> w)"

section \<open>Sorting the display list\<close>

text \<open>
  The values a field of a set can hold when it is read by name, \<^verbatim>\<open>a[fieldName]\<close>:
  a number, a text, or \<^verbatim>\<open>undefined\<close> for a field that is absent. The table offers the
  columns \<^verbatim>\<open>exerciseName\<close>, \<^verbatim>\<open>Reps\<close>, \<^verbatim>\<open>Weight_Kg\<close> and \<^verbatim>\<open>SetCount\<close> for sorting.
\<close>

datatype jsval = JUndefined | JNum rat | JStr string

definition get_field :: "string \<Rightarrow> workout_set \<Rightarrow> jsval" where
  "get_field fieldName a =
     (if fieldName = ''exerciseName'' then
        (case exerciseName a of None \<Rightarrow> JUndefined | Some n \<Rightarrow> JStr n)
      else if fieldName = ''Reps'' then
        (case Reps a of None \<Rightarrow> JUndefined | Some r \<Rightarrow> JNum (of_int r))
      else if fieldName = ''Weight_Kg'' then
        (case Weight_Kg a of None \<Rightarrow> JUndefined | Some w \<Rightarrow> JNum w)
      else if fieldName = ''SetCount'' then
        (case SetCount a of None \<Rightarrow> JUndefined | Some n \<Rightarrow> JNum (of_int n))
      else if fieldName = ''Exercise__c'' then
        (case Exercise__c a of None \<Rightarrow> JUndefined | Some e \<Rightarrow> JStr e)
      else JUndefined)"

text \<open>Truthiness, and \<^verbatim>\<open>x || y\<close>: \<open>x\<close> when it is truthy, else \<open>y\<close>.\<close>

fun truthy :: "jsval \<Rightarrow> bool" where
  "truthy JUndefined = False"
| "truthy (JNum x) = (x \<noteq> 0)"
| "truthy (JStr s) = (s \<noteq> [])"

definition js_or :: "jsval \<Rightarrow> jsval \<Rightarrow> jsval" where
  "js_or x y = (if truthy x then x else y)"

text \<open>
  Conversion to a number, \<open>None\<close> standing for NaN. The empty text converts to zero.
  Within one column the values are all numbers or all texts, so the only text that is
  ever compared with a number is the empty text that \<^verbatim>\<open>|| ''\<close> puts in the place of
  a missing or zero number; any other text is given NaN here.
\<close>

fun ToNumber :: "jsval \<Rightarrow> rat option" where
  "ToNumber JUndefined = None"
| "ToNumber (JNum x) = Some x"
| "ToNumber (JStr s) = (if s = [] then Some 0 else None)"

text \<open>
  \<^verbatim>\<open>x > y\<close>: two texts are compared as texts, character code by character code;
  otherwise both sides are converted to numbers, and a comparison with NaN is false.
\<close>

fun js_gt :: "jsval \<Rightarrow> jsval \<Rightarrow> bool" where
  "js_gt (JStr s) (JStr t) = (t < s)"
| "js_gt x y =
     (case ToNumber x of None \<Rightarrow> False
      | Some a \<Rightarrow> (case ToNumber y of None \<Rightarrow> False | Some b \<Rightarrow> b < a))"

text \<open>The comparator handed to \<^verbatim>\<open>sort\<close> in \<^verbatim>\<open>sortData\<close> (lines 349 to 354).\<close>

definition compare_sets :: "string \<Rightarrow> string \<Rightarrow> workout_set \<Rightarrow> workout_set \<Rightarrow> int" where
  "compare_sets fieldName sortDirection a b =
     (let reverse = (if sortDirection = ''desc'' then - 1 else 1);
          valueA = js_or (get_field fieldName a) (JStr []);
          valueB = js_or (get_field fieldName b) (JStr [])
      in reverse * (of_bool (js_gt valueA valueB) - of_bool (js_gt valueB valueA)))"

text \<open>
  \<^verbatim>\<open>Array.prototype.sort\<close> with a comparator is a stable sort: an element goes before
  another when the comparator says so, and elements the comparator holds equal keep
  their order. Insertion from the right end is such a sort.
\<close>

fun insert_sorted :: "('a \<Rightarrow> 'a \<Rightarrow> int) \<Rightarrow> 'a \<Rightarrow> 'a list \<Rightarrow> 'a list" where
  "insert_sorted cmp x [] = [x]"
| "insert_sorted cmp x (y # ys) =
     (if cmp x y \<le> 0 then x # y # ys else y # insert_sorted cmp x ys)"

definition Array_sort :: "('a \<Rightarrow> 'a \<Rightarrow> int) \<Rightarrow> 'a list \<Rightarrow> 'a list" where
  "Array_sort cmp xs = foldr (insert_sorted cmp) xs []"

definition sortData :: "string \<Rightarrow> string \<Rightarrow> component \<Rightarrow> component" where
  "sortData fieldName sortDirection c =
     c\<lparr> loggedSets := Array_sort (compare_sets fieldName sortDirection) (loggedSets c) \<rparr>"

definition handleSortData :: "string \<Rightarrow> string \<Rightarrow> component \<Rightarrow> component" where
  "handleSortData fieldName sortDirection c =
     (let c1 = c\<lparr> sortedBy := fieldName, sortedDirection := sortDirection \<rparr>
      in sortData (sortedBy c1) (sortedDirection c1) c1)"

text \<open>
  The comparator as the specification words it: only a missing value is replaced by the
  empty text, the three-way result comes from \<open>>\<close> and \<open><\<close>, and it is multiplied by
  \<open>-1\<close> for the descending direction.
\<close>

definition spec_coerce :: "jsval \<Rightarrow> jsval" where
  "spec_coerce v = (case v of JUndefined \<Rightarrow> JStr [] | _ \<Rightarrow> v)"

definition spec_three_way :: "jsval \<Rightarrow> jsval \<Rightarrow> int" where
  "spec_three_way u v = (if js_gt u v then 1 else if js_gt v u then - 1 else 0)"

definition spec_compare :: "string \<Rightarrow> string \<Rightarrow> workout_set \<Rightarrow> workout_set \<Rightarrow> int" where
  "spec_compare fieldName direction a b =
     (if direction = ''desc''
      then - 1 * spec_three_way (spec_coerce (get_field fieldName a)) (spec_coerce (get_field fieldName b))
      else spec_three_way (spec_coerce (get_field fieldName a)) (spec_coerce (get_field fieldName b)))"

section \<open>Remote calls, the page and the effects of a handler\<close>

text \<open>
  A remote call resolves with a value or is rejected; the component does not tell one
  cause of rejection from another.
\<close>

datatype remote_error = RemoteFailure

text \<open>The argument object of \<^verbatim>\<open>createWorkoutSet\<close> (lines 269 to 277).\<close>

record set_args =
  arg_sessionId :: "string option"
  arg_exerciseId :: "string option"
  arg_reps :: "string option"
  arg_weight :: "string option"
  arg_unit :: string
  arg_rpe :: "string option"
  arg_notes :: "string option"

datatype rpc =
    GetTodaySession
  | CreateWorkoutSession
  | GetExercisesByMuscleGroup "string option"
  | GetMuscleGroups
  | CreateWorkoutSet set_args
  | GetWorkoutSets "string option"
  | EndWorkoutSession "string option"

text \<open>
  What a handler does to the outside, in the order it does it. A remote call is recorded
  with the component as it stands at the moment the call is issued: that is the state
  the page shows while the call is pending. Input widgets are named by their position in
  the template.
\<close>

datatype event =
    Call rpc component
  | ShowToast string string string
  | ConsoleError string
  | ConfirmPrompt string
  | ReportValidity nat
  | SetCustomValidity nat string
  | RefreshApex "workout_set list"

datatype widget = lightning_input | lightning_combobox

record input =
  widget_kind :: widget
  required :: bool
  input_value :: "string option"

text \<open>
  Everything a handler run depends on besides the component: the outcome of each remote
  call (each is issued at most once in a run), the user's answer to the confirmation
  prompt, the input widgets the template holds, and the platform's date formatting.
  \<^verbatim>\<open>refreshApex\<close> is handed a plain array, which was not provisioned by a wire adapter;
  the platform resolves such a call without doing anything, so it has no outcome here.
\<close>

record env =
  getTodaySession :: "remote_error + session option"
  createWorkoutSession :: "remote_error + session"
  getExercisesByMuscleGroup :: "string option \<Rightarrow> remote_error + exercise list"
  getMuscleGroups :: "remote_error + string list"
  createWorkoutSet :: "set_args \<Rightarrow> remote_error + unit"
  getWorkoutSets :: "string option \<Rightarrow> remote_error + workout_set list"
  endWorkoutSession :: "string option \<Rightarrow> remote_error + unit"
  confirm :: "string \<Rightarrow> bool"
  template_inputs :: "input list"
  formatDate :: "string \<Rightarrow> string"

text \<open>Truthiness of a text that may be absent: absent and empty are falsy.\<close>

definition truthy_str :: "string option \<Rightarrow> bool" where
  "truthy_str v = (case v of None \<Rightarrow> False | Some s \<Rightarrow> s \<noteq> [])"

definition remote_calls :: "event list \<Rightarrow> rpc list" where
  "remote_calls evs = concat (map (\<lambda>e. case e of Call r c \<Rightarrow> [r] | _ \<Rightarrow> []) evs)"

definition call_snapshots :: "event list \<Rightarrow> component list" where
  "call_snapshots evs = concat (map (\<lambda>e. case e of Call r c \<Rightarrow> [c] | _ \<Rightarrow> []) evs)"

definition toasts :: "event list \<Rightarrow> (string \<times> string \<times> string) list" where
  "toasts evs = concat (map (\<lambda>e. case e of ShowToast t m v \<Rightarrow> [(t, m, v)] | _ \<Rightarrow> []) evs)"


section \<open>The handlers\<close>

text \<open>\<^verbatim>\<open>loadMuscleGroups\<close> (lines 171 to 181): a failure is only written to the console.\<close>

definition loadMuscleGroups :: "env \<Rightarrow> component \<Rightarrow> component \<times> event list" where
  "loadMuscleGroups e c =
     (case getMuscleGroups e of
        Inr groups \<Rightarrow>
          (c\<lparr> muscleGroupOptions := map (\<lambda>group. \<lparr> label = group, item_value = group \<rparr>) groups \<rparr>,
           [Call GetMuscleGroups c])
      | Inl error \<Rightarrow>
          (c, [Call GetMuscleGroups c, ConsoleError ''Error loading muscle groups:'']))"

text \<open>\<^verbatim>\<open>handleMuscleGroupChange\<close> (lines 183 to 201).\<close>

definition handleMuscleGroupChange :: "env \<Rightarrow> string option \<Rightarrow> component \<Rightarrow> component \<times> event list" where
  "handleMuscleGroupChange e v c =
     (let c1 = c\<lparr> selectedMuscleGroup := v, selectedExerciseId := None, exerciseOptions := [] \<rparr>
      in if truthy_str (selectedMuscleGroup c1) then
           (case getExercisesByMuscleGroup e (selectedMuscleGroup c1) of
              Inr exercises \<Rightarrow>
                (c1\<lparr> exerciseOptions :=
                       map (\<lambda>ex. \<lparr> label = exercise_Name ex, item_value = exercise_Id ex \<rparr>) exercises \<rparr>,
                 [Call (GetExercisesByMuscleGroup (selectedMuscleGroup c1)) c1])
            | Inl error \<Rightarrow>
                (c1, [Call (GetExercisesByMuscleGroup (selectedMuscleGroup c1)) c1,
                      ConsoleError ''Error loading exercises:'']))
         else (c1, []))"

text \<open>\<^verbatim>\<open>loadWorkoutSets\<close> (lines 203 to 216). The display list is a copy of the cache.\<close>

definition loadWorkoutSets :: "env \<Rightarrow> component \<Rightarrow> component \<times> event list" where
  "loadWorkoutSets e c =
     (let c1 = c\<lparr> isLoading := True \<rparr>
      in case getWorkoutSets e (sessionId c1) of
           Inr sets \<Rightarrow>
             (let c2 = calculateStatistics (c1\<lparr> allLoggedSets := sets, loggedSets := sets \<rparr>)
              in (c2\<lparr> isLoading := False \<rparr>, [Call (GetWorkoutSets (sessionId c1)) c1]))
         | Inl error \<Rightarrow>
             (c1\<lparr> isLoading := False \<rparr>,
              [Call (GetWorkoutSets (sessionId c1)) c1,
               ShowToast ''Error'' ''Failed to load workout sets'' ''error'',
               ConsoleError ''Error loading sets:'']))"

text \<open>
  \<^verbatim>\<open>initializeLogger\<close> (lines 135 to 152). A rejected \<^verbatim>\<open>getTodaySession\<close> leaves the
  \<^verbatim>\<open>try\<close> block at once; \<^verbatim>\<open>loadWorkoutSets\<close> and \<^verbatim>\<open>loadMuscleGroups\<close> catch their own
  failures, so nothing they do reaches the \<^verbatim>\<open>catch\<close> of this function.
\<close>

definition initializeLogger :: "env \<Rightarrow> component \<Rightarrow> component \<times> event list" where
  "initializeLogger e c =
     (let c1 = c\<lparr> isLoading := True \<rparr>
      in case getTodaySession e of
           Inl error \<Rightarrow>
             (c1\<lparr> isLoading := False \<rparr>,
              [Call GetTodaySession c1,
               ShowToast ''Error'' ''Failed to initialize workout logger'' ''error'',
               ConsoleError ''Initialization error:''])
         | Inr None \<Rightarrow>
             (let (c2, ev2) = loadMuscleGroups e c1
              in (c2\<lparr> isLoading := False \<rparr>, Call GetTodaySession c1 # ev2))
         | Inr (Some session) \<Rightarrow>
             (let c2 = c1\<lparr> sessionId := Some (session_Id session),
                           sessionExists := True,
                           sessionDate := formatDate e (Session_Date__c session) \<rparr>;
                  (c3, ev3) = loadWorkoutSets e c2;
                  (c4, ev4) = loadMuscleGroups e c3
              in (c4\<lparr> isLoading := False \<rparr>, Call GetTodaySession c1 # ev3 @ ev4)))"


text \<open>\<^verbatim>\<open>handleCreateSession\<close> (lines 232 to 246).\<close>

definition handleCreateSession :: "env \<Rightarrow> component \<Rightarrow> component \<times> event list" where
  "handleCreateSession e c =
     (let c1 = c\<lparr> isLoading := True \<rparr>
      in case createWorkoutSession e of
           Inr session \<Rightarrow>
             (c1\<lparr> sessionId := Some (session_Id session),
                  sessionExists := True,
                  sessionDate := formatDate e (Session_Date__c session),
                  isLoading := False \<rparr>,
              [Call CreateWorkoutSession c1,
               ShowToast ''Success'' ''New workout session started'' ''success''])
         | Inl error \<Rightarrow>
             (c1\<lparr> isLoading := False \<rparr>,
              [Call CreateWorkoutSession c1,
               ShowToast ''Error'' ''Failed to create session'' ''error'',
               ConsoleError ''Error creating session:'']))"

text \<open>
  \<^verbatim>\<open>validateForm\<close> (lines 248 to 260): every required widget without a value is asked to
  show its message, and one such widget makes the form invalid.
\<close>

definition validateForm :: "env \<Rightarrow> bool \<times> event list" where
  "validateForm e =
     fold (\<lambda>(i, inp) (isValid, evs).
             if required inp \<and> \<not> truthy_str (input_value inp)
             then (False, evs @ [ReportValidity i])
             else (isValid, evs))
          (enumerate 0 (template_inputs e)) (True, [])"

text \<open>
  \<^verbatim>\<open>handleClearForm\<close> (lines 295 to 307): only \<^verbatim>\<open>lightning-input\<close> widgets have their
  message reset.
\<close>

definition handleClearForm :: "env \<Rightarrow> component \<Rightarrow> component \<times> event list" where
  "handleClearForm e c =
     (c\<lparr> reps := None, weight := None, rpe := None, notes_field := None \<rparr>,
      concat (map (\<lambda>(i, inp). [SetCustomValidity i [], ReportValidity i])
                  (filter (\<lambda>(i, inp). widget_kind inp = lightning_input)
                          (enumerate 0 (template_inputs e)))))"

text \<open>
  \<^verbatim>\<open>handleAddSet\<close> (lines 262 to 293). The object handed to \<^verbatim>\<open>createWorkoutSet\<close>
  is built from the fields of the component as they are when the call is made.
\<close>

definition createWorkoutSet_args :: "component \<Rightarrow> set_args" where
  "createWorkoutSet_args c =
     \<lparr> arg_sessionId = sessionId c,
       arg_exerciseId = selectedExerciseId c,
       arg_reps = reps c,
       arg_weight = weight c,
       arg_unit = unit_field c,
       arg_rpe = rpe c,
       arg_notes = notes_field c \<rparr>"

definition handleAddSet :: "env \<Rightarrow> component \<Rightarrow> component \<times> event list" where
  "handleAddSet e c =
     (let (isValid, evv) = validateForm e
      in if \<not> isValid then (c, evv)
         else
           (let c1 = c\<lparr> isLoading := True \<rparr>;
                args = createWorkoutSet_args c1
            in case createWorkoutSet e args of
                 Inr created \<Rightarrow>
                   (let (c2, ev2) = handleClearForm e c1;
                        (c3, ev3) = loadWorkoutSets e c2
                    in (c3\<lparr> isLoading := False \<rparr>,
                        evv @ [Call (CreateWorkoutSet args) c1] @ ev2
                          @ [RefreshApex (allLoggedSets c2)] @ ev3
                          @ [ShowToast ''Success'' ''Workout set added successfully'' ''success'']))
               | Inl error \<Rightarrow>
                   (c1\<lparr> isLoading := False \<rparr>,
                    evv @ [Call (CreateWorkoutSet args) c1,
                           ShowToast ''Error'' ''Failed to add workout set'' ''error'',
                           ConsoleError ''Error adding set:''])))"

text \<open>\<^verbatim>\<open>handleEndSession\<close> (lines 309 to 331).\<close>

definition end_session_prompt :: string where
  "end_session_prompt =
     ''Are you sure you want to end this workout session? This action cannot be undone.''"

definition handleEndSession :: "env \<Rightarrow> component \<Rightarrow> component \<times> event list" where
  "handleEndSession e c =
     (if \<not> confirm e end_session_prompt then (c, [ConfirmPrompt end_session_prompt])
      else
        (let c1 = c\<lparr> isLoading := True \<rparr>
         in case endWorkoutSession e (sessionId c1) of
              Inr done_ok \<Rightarrow>
                (c1\<lparr> sessionId := None,
                     sessionExists := False,
                     sessionDate := [],
                     loggedSets := [],
                     allLoggedSets := [],
                     isLoading := False \<rparr>,
                 [ConfirmPrompt end_session_prompt,
                  Call (EndWorkoutSession (sessionId c1)) c1,
                  ShowToast ''Success'' ''Workout session ended successfully'' ''success''])
            | Inl error \<Rightarrow>
                (c1\<lparr> isLoading := False \<rparr>,
                 [ConfirmPrompt end_session_prompt,
                  Call (EndWorkoutSession (sessionId c1)) c1,
                  ShowToast ''Error'' ''Failed to end workout session'' ''error'',
                  ConsoleError ''Error ending session:''])))"










text \<open>
  What can happen to a component: it is mounted, or the user triggers one of the
  handlers. Every action but the add-set action is taken to be possible at any time,
  with any answers of the backend.
\<close>

datatype action =
    Mount env
  | MuscleGroupChange env "string option"
  | ExerciseChange "string option"
  | RepsChange "string option"
  | WeightChange "string option"
  | UnitChange string
  | RpeChange "string option"
  | NotesChange "string option"
  | CreateSession env
  | AddSet env
  | EndSession env
  | RefreshTable env
  | ToggleTable
  | SortTable string string



text \<open>The statistics the component shows, as one tuple.\<close>

definition shown_statistics :: "component \<Rightarrow> nat \<times> nat \<times> int \<times> rat" where
  "shown_statistics c = (totalSets c, uniqueExercises c, totalReps c, maxWeight c)"

section \<open>Auxiliary notions for the comparator\<close>

text \<open>
  The value the comparator works on, the two parts of its result, and the two kinds of
  column: a numeric column yields numbers or the empty text, a text column yields texts.
\<close>

definition coerced :: "string \<Rightarrow> workout_set \<Rightarrow> jsval" where
  "coerced f a = js_or (get_field f a) (JStr [])"

definition three_way :: "jsval \<Rightarrow> jsval \<Rightarrow> int" where
  "three_way u v = of_bool (js_gt u v) - of_bool (js_gt v u)"

definition reverse_of :: "string \<Rightarrow> int" where
  "reverse_of d = (if d = ''desc'' then - 1 else 1)"

definition num_key :: "jsval \<Rightarrow> rat" where
  "num_key v = (case v of JNum x \<Rightarrow> x | _ \<Rightarrow> 0)"

definition str_key :: "jsval \<Rightarrow> string" where
  "str_key v = (case v of JStr s \<Rightarrow> s | _ \<Rightarrow> [])"

definition is_numlike :: "jsval \<Rightarrow> bool" where
  "is_numlike v = (case v of JNum x \<Rightarrow> True | JStr s \<Rightarrow> s = [] | JUndefined \<Rightarrow> False)"

definition is_text :: "jsval \<Rightarrow> bool" where
  "is_text v = (case v of JStr s \<Rightarrow> True | _ \<Rightarrow> False)"

definition raw_num :: "jsval \<Rightarrow> bool" where
  "raw_num v = (case v of JStr s \<Rightarrow> False | _ \<Rightarrow> True)"

definition raw_text :: "jsval \<Rightarrow> bool" where
  "raw_text v = (case v of JNum x \<Rightarrow> False | _ \<Rightarrow> True)"

section \<open>Concrete sets, components and environments\<close>

definition example_set :: "string \<Rightarrow> int option \<Rightarrow> rat option \<Rightarrow> int option \<Rightarrow> workout_set" where
  "example_set ex r w n =
     \<lparr> Exercise__c = Some ex, exerciseName = Some ex, Reps = r, Weight_Kg = w, SetCount = n \<rparr>"

text \<open>Three sets with reps 5, 10, none; weights 40, none, 60; ordinals 1, 2, 3.\<close>

definition sets123 :: "workout_set list" where
  "sets123 =
     [example_set ''squat'' (Some 5) (Some 40) (Some 1),
      example_set ''squat'' (Some 10) None (Some 2),
      example_set ''bench'' None (Some 60) (Some 3)]"

text \<open>One set of an assisted exercise, logged with a weight below zero.\<close>

definition assisted_sets :: "workout_set list" where
  "assisted_sets = [example_set ''pullup'' (Some 8) (Some (- 5)) (Some 1)]"

definition session1 :: session where
  "session1 = \<lparr> session_Id = ''S1'', Session_Date__c = ''2024-05-01'' \<rparr>"

definition filled_input :: input where
  "filled_input = \<lparr> widget_kind = lightning_input, required = True, input_value = Some ''10'' \<rparr>"

definition empty_input :: input where
  "empty_input = \<lparr> widget_kind = lightning_input, required = True, input_value = None \<rparr>"

text \<open>Every remote call resolves, the user accepts the prompt, the form is filled in.\<close>

definition resolving_env :: env where
  "resolving_env =
     \<lparr> getTodaySession = Inr (Some session1),
       createWorkoutSession = Inr session1,
       getExercisesByMuscleGroup = (\<lambda>g. Inr [\<lparr> exercise_Id = ''E1'', exercise_Name = ''squat'' \<rparr>]),
       getMuscleGroups = Inr [''Legs'', ''Chest''],
       createWorkoutSet = (\<lambda>a. Inr ()),
       getWorkoutSets = (\<lambda>i. Inr sets123),
       endWorkoutSession = (\<lambda>i. Inr ()),
       confirm = (\<lambda>m. True),
       template_inputs = [filled_input],
       formatDate = (\<lambda>d. d) \<rparr>"

text \<open>Every remote call is rejected; the user accepts the prompt, the form is filled in.\<close>

definition rejecting_env :: env where
  "rejecting_env =
     \<lparr> getTodaySession = Inl RemoteFailure,
       createWorkoutSession = Inl RemoteFailure,
       getExercisesByMuscleGroup = (\<lambda>g. Inl RemoteFailure),
       getMuscleGroups = Inl RemoteFailure,
       createWorkoutSet = (\<lambda>a. Inl RemoteFailure),
       getWorkoutSets = (\<lambda>i. Inl RemoteFailure),
       endWorkoutSession = (\<lambda>i. Inl RemoteFailure),
       confirm = (\<lambda>m. True),
       template_inputs = [filled_input],
       formatDate = (\<lambda>d. d) \<rparr>"

text \<open>The user declines the prompt and has left a required input empty.\<close>

definition declining_env :: env where
  "declining_env = resolving_env\<lparr> confirm := (\<lambda>m. False), template_inputs := [empty_input] \<rparr>"

text \<open>There is no session for today.\<close>

definition no_session_env :: env where
  "no_session_env = resolving_env\<lparr> getTodaySession := Inr None \<rparr>"

text \<open>Today's session is found, but its sets cannot be fetched.\<close>

definition sets_rejected_env :: env where
  "sets_rejected_env = resolving_env\<lparr> getWorkoutSets := (\<lambda>i. Inl RemoteFailure) \<rparr>"

text \<open>The three sets and a fourth one, of another exercise, as the backend holds them
  once the set of the form has been created.\<close>

definition sets1234 :: "workout_set list" where
  "sets1234 = sets123 @ [example_set ''row'' (Some 8) (Some 70) (Some 4)]"

definition added_env :: env where
  "added_env = resolving_env\<lparr> getWorkoutSets := (\<lambda>i. Inr sets1234) \<rparr>"

text \<open>A component with an open session, three sets loaded and a form the user typed into.\<close>

definition loaded_component :: component where
  "loaded_component =
     initial_component\<lparr> sessionId := Some ''S1'', sessionExists := True,
       sessionDate := ''2024-05-01'', selectedMuscleGroup := Some ''Legs'',
       exerciseOptions := [\<lparr> label = ''squat'', item_value = ''E1'' \<rparr>],
       selectedExerciseId := Some ''E1'', reps := Some ''10'', weight := Some ''50'',
       loggedSets := sets123, allLoggedSets := sets123,
       totalSets := 3, uniqueExercises := 2, totalReps := 15, maxWeight := 60 \<rparr>"

section \<open>Properties of the statistics\<close>

lemma fold_reps_sum:
  "fold (\<lambda>s sum. sum + reps_or_zero s) xs a
     = a + (\<Sum>s\<leftarrow>xs. case Reps s of None \<Rightarrow> 0 | Some r \<Rightarrow> r)"
  by (induction xs arbitrary: a) (auto simp: reps_or_zero_def split: option.splits)

lemma Math_max_Max: "xs \<noteq> [] \<Longrightarrow> Math_max xs = Some (Max (set xs))"
proof (induction xs)
  case Nil
  then show ?case by simp
next
  case (Cons x xs)
  show ?case
  proof (cases "xs = []")
    case True
    then show ?thesis by simp
  next
    case False
    with Cons have "Math_max xs = Some (Max (set xs))" by simp
    with False show ?thesis by (simp add: Max_insert)
  qed
qed

lemma weight_or_zero_eq:
  "weight_or_zero s = (case Weight_Kg s of None \<Rightarrow> 0 | Some w \<Rightarrow> w)"
  by (simp add: weight_or_zero_def split: option.splits)

lemma spec_maxWeight_Max:
  "xs \<noteq> [] \<Longrightarrow> spec_maxWeight xs = Max (set (map weight_or_zero xs))"
  by (cases xs) (simp_all add: Max.set_eq_fold [symmetric] weight_or_zero_eq [abs_def])

lemma floor_zero_agrees_with_spec:
  assumes "\<forall>s\<in>set xs. 0 \<le> weight_or_zero s"
  shows "Max (insert 0 (set (map weight_or_zero xs))) = spec_maxWeight xs"
proof (cases "xs = []")
  case True
  then show ?thesis by simp
next
  case False
  then obtain s where s: "s \<in> set xs" by (cases xs) auto
  have "Max (insert 0 (set (map weight_or_zero xs))) = max 0 (Max (set (map weight_or_zero xs)))"
    using False by (simp add: Max_insert del: set_map)
  moreover have "0 \<le> Max (set (map weight_or_zero xs))"
    using assms s False by (auto simp: Max_ge_iff)
  ultimately show ?thesis using False by (simp add: spec_maxWeight_Max del: set_map)
qed

lemma calculateStatistics_fields:
  "totalSets (calculateStatistics c) = length (allLoggedSets c)"
  "uniqueExercises (calculateStatistics c) = card (set (map Exercise__c (allLoggedSets c)))"
  "totalReps (calculateStatistics c)
     = (\<Sum>s\<leftarrow>allLoggedSets c. case Reps s of None \<Rightarrow> 0 | Some r \<Rightarrow> r)"
  "maxWeight (calculateStatistics c)
     = Max (insert 0 (set (map weight_or_zero (allLoggedSets c))))"
  by (simp_all add: calculateStatistics_def Set_size_def fold_reps_sum Math_max_Max
        length_remdups_card_conv del: set_map)

lemma statistics_of_sets123:
  "shown_statistics (calculateStatistics (initial_component\<lparr> allLoggedSets := sets123 \<rparr>))
     = (3, 2, 15, 60)"
  by (simp add: shown_statistics_def calculateStatistics_def initial_component_def sets123_def
        example_set_def Set_size_def reps_or_zero_def weight_or_zero_def)

text \<open>
  Claim C3, as the code has it. For every list of loaded sets, \<^verbatim>\<open>calculateStatistics\<close>
  sets the total to the number of sets, the unique exercises to the number of distinct
  values of the exercise field, the total reps to the sum of the rep counts with a missing
  count taken as zero, and the maximum weight to the largest of zero and all weights with
  a missing weight taken as zero. When no weight is below zero this is the maximum of the
  weights, and zero for the empty list, as the specification words it. On the empty list
  all four are 0; reps 5, 10, none give 15; weights 40, none, 60 give 60.
\<close>

theorem calculateStatistics_values:
  "totalSets (calculateStatistics c) = length (allLoggedSets c)
   \<and> uniqueExercises (calculateStatistics c) = card (set (map Exercise__c (allLoggedSets c)))
   \<and> totalReps (calculateStatistics c)
       = (\<Sum>s\<leftarrow>allLoggedSets c. case Reps s of None \<Rightarrow> 0 | Some r \<Rightarrow> r)
   \<and> maxWeight (calculateStatistics c)
       = Max (insert 0 (set (map (\<lambda>s. case Weight_Kg s of None \<Rightarrow> 0 | Some w \<Rightarrow> w)
                              (allLoggedSets c))))
   \<and> ((\<forall>s\<in>set (allLoggedSets c). 0 \<le> weight_or_zero s) \<longrightarrow>
        maxWeight (calculateStatistics c) = spec_maxWeight (allLoggedSets c))
   \<and> shown_statistics (calculateStatistics (initial_component\<lparr> allLoggedSets := [] \<rparr>))
       = (0, 0, 0, 0)
   \<and> totalReps (calculateStatistics (initial_component\<lparr> allLoggedSets := sets123 \<rparr>)) = 15
   \<and> maxWeight (calculateStatistics (initial_component\<lparr> allLoggedSets := sets123 \<rparr>)) = 60"
proof -
  have empty: "shown_statistics (calculateStatistics (initial_component\<lparr> allLoggedSets := [] \<rparr>))
       = (0, 0, 0, 0)"
    by (simp add: shown_statistics_def calculateStatistics_def Set_size_def)
  have agree: "maxWeight (calculateStatistics c) = spec_maxWeight (allLoggedSets c)"
    if "\<forall>s\<in>set (allLoggedSets c). 0 \<le> weight_or_zero s"
    using floor_zero_agrees_with_spec [OF that] by (simp add: calculateStatistics_fields)
  have w: "(\<lambda>s. case Weight_Kg s of None \<Rightarrow> 0 | Some w \<Rightarrow> w) = weight_or_zero"
    by (simp add: fun_eq_iff weight_or_zero_eq)
  show ?thesis
    using statistics_of_sets123 empty agree
    by (simp add: calculateStatistics_fields w shown_statistics_def del: set_map)
qed

theorem calculateStatistics_values_witness:
  "list_all (\<lambda>s. 0 \<le> weight_or_zero s)
     (allLoggedSets (initial_component\<lparr> allLoggedSets := sets123 \<rparr>))
   \<and> maxWeight (calculateStatistics (initial_component\<lparr> allLoggedSets := sets123 \<rparr>)) = 60
   \<and> spec_maxWeight sets123 = 60"
  using calculateStatistics_values [of "initial_component\<lparr> allLoggedSets := sets123 \<rparr>"]
  by (simp add: sets123_def example_set_def weight_or_zero_def)

text \<open>
  The maximum weight is not the maximum of the weights when every weight is below zero:
  for one set logged with \<open>-5\<close> the component shows 0, where the maximum of the weights
  is \<open>-5\<close>.
\<close>

theorem maxWeight_floor_counterexample:
  "maxWeight (calculateStatistics (initial_component\<lparr> allLoggedSets := assisted_sets \<rparr>)) = 0
   \<and> spec_maxWeight assisted_sets = - 5"
  by (simp add: calculateStatistics_def assisted_sets_def example_set_def weight_or_zero_def)

section \<open>Properties of the sort\<close>

lemma mset_insert_sorted: "mset (insert_sorted cmp x ys) = add_mset x (mset ys)"
  by (induction ys) auto

lemma mset_Array_sort: "mset (Array_sort cmp xs) = mset xs"
  unfolding Array_sort_def by (induction xs) (auto simp: mset_insert_sorted)

lemma set_insert_sorted: "set (insert_sorted cmp x ys) = insert x (set ys)"
  by (induction ys) auto

lemma sorted_insert_sorted:
  assumes total: "\<And>a b. cmp a b \<le> 0 \<or> cmp b a \<le> 0"
    and trans: "\<And>a b c. cmp a b \<le> 0 \<Longrightarrow> cmp b c \<le> 0 \<Longrightarrow> cmp a c \<le> 0"
    and "sorted_wrt (\<lambda>a b. cmp a b \<le> 0) ys"
  shows "sorted_wrt (\<lambda>a b. cmp a b \<le> 0) (insert_sorted cmp x ys)"
  using assms(3)
proof (induction ys)
  case Nil then show ?case by simp
next
  case (Cons y ys)
  from Cons.prems have yz: "\<forall>z\<in>set ys. cmp y z \<le> 0"
    and s: "sorted_wrt (\<lambda>a b. cmp a b \<le> 0) ys" by simp_all
  show ?case
  proof (cases "cmp x y \<le> 0")
    case True
    have "\<forall>z\<in>set ys. cmp x z \<le> 0" using trans [OF True] yz by blast
    with True yz s show ?thesis by simp
  next
    case False
    then have "cmp y x \<le> 0" using total by blast
    moreover have "sorted_wrt (\<lambda>a b. cmp a b \<le> 0) (insert_sorted cmp x ys)"
      using Cons.IH s by blast
    ultimately show ?thesis using False yz by (simp add: set_insert_sorted)
  qed
qed

lemma sorted_Array_sort:
  assumes total: "\<And>a b. cmp a b \<le> 0 \<or> cmp b a \<le> 0"
    and trans: "\<And>a b c. cmp a b \<le> 0 \<Longrightarrow> cmp b c \<le> 0 \<Longrightarrow> cmp a c \<le> 0"
  shows "sorted_wrt (\<lambda>a b. cmp a b \<le> 0) (Array_sort cmp xs)"
proof (induction xs)
  case Nil then show ?case by (simp add: Array_sort_def)
next
  case (Cons x xs)
  have "Array_sort cmp (x # xs) = insert_sorted cmp x (Array_sort cmp xs)"
    by (simp add: Array_sort_def)
  moreover have "sorted_wrt (\<lambda>a b. cmp a b \<le> 0) (insert_sorted cmp x (Array_sort cmp xs))"
    by (rule sorted_insert_sorted [OF total trans Cons.IH])
  ultimately show ?case by simp
qed


lemma js_gt_numlike:
  "is_numlike u \<Longrightarrow> is_numlike v \<Longrightarrow> js_gt u v = (num_key v < num_key u)"
  by (cases u; cases v) (simp_all add: is_numlike_def num_key_def)

lemma js_gt_text:
  "is_text u \<Longrightarrow> is_text v \<Longrightarrow> js_gt u v = (str_key v < str_key u)"
  by (cases u; cases v) (simp_all add: is_text_def str_key_def)


lemma is_text_or: "is_text (js_or (case x of None \<Rightarrow> JUndefined | Some n \<Rightarrow> JStr n) (JStr []))"
  by (cases x) (simp_all add: js_or_def is_text_def)

lemma is_numlike_or: "is_numlike (js_or (case x of None \<Rightarrow> JUndefined | Some n \<Rightarrow> JNum (g n)) (JStr []))"
  by (cases x) (simp_all add: js_or_def is_numlike_def)

lemma is_numlike_undef: "is_numlike (js_or JUndefined (JStr []))"
  by (simp add: js_or_def is_numlike_def)

lemma coerced_text:
  "f = ''exerciseName'' \<or> f = ''Exercise__c'' \<Longrightarrow> is_text (coerced f a)"
  unfolding coerced_def get_field_def
  by (erule disjE) (simp_all only: is_text_or if_True if_False refl list.inject char.inject simp_thms)

lemma coerced_numlike:
  "f \<noteq> ''exerciseName'' \<Longrightarrow> f \<noteq> ''Exercise__c'' \<Longrightarrow> is_numlike (coerced f a)"
  unfolding coerced_def get_field_def
  by (simp only: if_False is_numlike_or [where g = "\<lambda>x. x"] is_numlike_or [where g = of_int] is_numlike_undef simp_thms split: if_split)

lemma coerced_keys:
  "(\<forall>a b. js_gt (coerced f a) (coerced f b) = (num_key (coerced f b) < num_key (coerced f a)))
   \<or> (\<forall>a b. js_gt (coerced f a) (coerced f b) = (str_key (coerced f b) < str_key (coerced f a)))"
proof (cases "f = ''exerciseName'' \<or> f = ''Exercise__c''")
  case True
  have "js_gt (coerced f a) (coerced f b) = (str_key (coerced f b) < str_key (coerced f a))" for a b
    by (rule js_gt_text) (rule coerced_text [OF True])+
  then show ?thesis by simp
next
  case False
  then have n: "f \<noteq> ''exerciseName''" "f \<noteq> ''Exercise__c''" by simp_all
  have "js_gt (coerced f a) (coerced f b) = (num_key (coerced f b) < num_key (coerced f a))" for a b
    by (rule js_gt_numlike) (rule coerced_numlike [OF n])+
  then show ?thesis by simp
qed


lemma compare_sets_three_way:
  "compare_sets f d a b = reverse_of d * three_way (coerced f a) (coerced f b)"
  unfolding compare_sets_def coerced_def three_way_def reverse_of_def Let_def
  by (rule refl)

lemma reverse_of_cases: "reverse_of d = 1 \<or> reverse_of d = - 1"
  unfolding reverse_of_def by (cases "d = ''desc''") simp_all

lemma three_way_key:
  fixes k :: "jsval \<Rightarrow> 'k::linorder"
  assumes "\<And>a b. js_gt (coerced f a) (coerced f b) = (k (coerced f b) < k (coerced f a))"
  shows "three_way (coerced f a) (coerced f b) \<le> 0 \<longleftrightarrow> k (coerced f a) \<le> k (coerced f b)"
    and "0 \<le> three_way (coerced f a) (coerced f b) \<longleftrightarrow> k (coerced f b) \<le> k (coerced f a)"
  unfolding three_way_def assms by (auto simp: not_less)

lemma three_way_range: "three_way u v \<in> {- 1, 0, 1}"
  unfolding three_way_def by (cases "js_gt u v"; cases "js_gt v u") simp_all

lemma three_way_total:
  "r = 1 \<or> r = - 1 \<Longrightarrow>
   r * three_way (coerced f a) (coerced f b) \<le> 0 \<or> r * three_way (coerced f b) (coerced f a) \<le> 0"
proof -
  have "three_way (coerced f b) (coerced f a) = - three_way (coerced f a) (coerced f b)"
    by (simp add: three_way_def)
  moreover assume "r = 1 \<or> r = - 1"
  ultimately show ?thesis by auto
qed

lemma three_way_trans:
  assumes r: "r = 1 \<or> r = - 1"
    and ab: "r * three_way (coerced f a) (coerced f b) \<le> 0"
    and bc: "r * three_way (coerced f b) (coerced f c) \<le> 0"
  shows "r * three_way (coerced f a) (coerced f c) \<le> 0"
proof -
  have gen: "r * three_way (coerced f a) (coerced f c) \<le> 0"
    if k: "\<And>a b. js_gt (coerced f a) (coerced f b) = (k (coerced f b) < k (coerced f a))"
    for k :: "jsval \<Rightarrow> 'k::linorder"
  proof -
    note tw = three_way_key [of f k, OF k]
    from r show ?thesis
    proof
      assume "r = 1"
      with ab bc have "k (coerced f a) \<le> k (coerced f b)" "k (coerced f b) \<le> k (coerced f c)"
        by (simp_all add: tw)
      then have "k (coerced f a) \<le> k (coerced f c)" by (rule order_trans)
      with \<open>r = 1\<close> show ?thesis by (simp add: tw)
    next
      assume "r = - 1"
      with ab bc have "k (coerced f b) \<le> k (coerced f a)" "k (coerced f c) \<le> k (coerced f b)"
        by (simp_all add: tw)
      then have "k (coerced f c) \<le> k (coerced f a)" by (rule order_trans [rotated])
      with \<open>r = - 1\<close> show ?thesis by (simp add: tw)
    qed
  qed
  from coerced_keys [of f] show ?thesis
  proof
    assume "\<forall>a b. js_gt (coerced f a) (coerced f b) = (num_key (coerced f b) < num_key (coerced f a))"
    then show ?thesis by (intro gen [of num_key]) simp
  next
    assume "\<forall>a b. js_gt (coerced f a) (coerced f b) = (str_key (coerced f b) < str_key (coerced f a))"
    then show ?thesis by (intro gen [of str_key]) simp
  qed
qed

lemma compare_sets_total: "compare_sets f d a b \<le> 0 \<or> compare_sets f d b a \<le> 0"
  unfolding compare_sets_three_way by (rule three_way_total [OF reverse_of_cases])

lemma compare_sets_trans:
  "compare_sets f d a b \<le> 0 \<Longrightarrow> compare_sets f d b c \<le> 0 \<Longrightarrow> compare_sets f d a c \<le> 0"
  unfolding compare_sets_three_way by (rule three_way_trans [OF reverse_of_cases])

lemma compare_sets_range: "compare_sets f d a b \<in> {- 1, 0, 1}"
  using three_way_range [of "coerced f a" "coerced f b"] reverse_of_cases [of d]
  unfolding compare_sets_three_way by auto

lemma compare_sets_desc:
  "d \<noteq> ''desc'' \<Longrightarrow> compare_sets f ''desc'' a b = - compare_sets f d a b"
  unfolding compare_sets_three_way reverse_of_def by simp


lemma js_gt_asym: "js_gt u v \<Longrightarrow> \<not> js_gt v u"
  by (cases u; cases v) (auto split: if_splits)

lemma three_way_spec: "three_way u v = spec_three_way u v"
  using js_gt_asym [of u v] unfolding three_way_def spec_three_way_def by auto

lemma coerce_raw_num:
  "raw_num x \<Longrightarrow> raw_num y \<Longrightarrow>
   js_gt (js_or x (JStr [])) (js_or y (JStr [])) = js_gt (spec_coerce x) (spec_coerce y)"
  by (cases x; cases y) (simp_all add: raw_num_def js_or_def spec_coerce_def)

lemma coerce_raw_text:
  "raw_text x \<Longrightarrow> raw_text y \<Longrightarrow>
   js_gt (js_or x (JStr [])) (js_or y (JStr [])) = js_gt (spec_coerce x) (spec_coerce y)"
  by (cases x; cases y) (simp_all add: raw_text_def js_or_def spec_coerce_def)

lemma raw_text_case: "raw_text (case x of None \<Rightarrow> JUndefined | Some n \<Rightarrow> JStr n)"
  by (cases x) (simp_all add: raw_text_def)

lemma raw_num_case: "raw_num (case x of None \<Rightarrow> JUndefined | Some n \<Rightarrow> JNum (g n))"
  by (cases x) (simp_all add: raw_num_def)

lemma raw_num_undef: "raw_num JUndefined"
  by (simp add: raw_num_def)

lemma get_field_text:
  "f = ''exerciseName'' \<or> f = ''Exercise__c'' \<Longrightarrow> raw_text (get_field f a)"
  unfolding get_field_def
  by (erule disjE) (simp_all only: raw_text_case if_True if_False refl list.inject char.inject simp_thms)

lemma get_field_num:
  "f \<noteq> ''exerciseName'' \<Longrightarrow> f \<noteq> ''Exercise__c'' \<Longrightarrow> raw_num (get_field f a)"
  unfolding get_field_def
  by (simp only: if_False raw_num_case [where g = "\<lambda>x. x"] raw_num_case [where g = of_int]
        raw_num_undef simp_thms split: if_split)

lemma coerced_spec:
  "js_gt (coerced f a) (coerced f b) = js_gt (spec_coerce (get_field f a)) (spec_coerce (get_field f b))"
proof (cases "f = ''exerciseName'' \<or> f = ''Exercise__c''")
  case True
  show ?thesis unfolding coerced_def
    by (rule coerce_raw_text) (rule get_field_text [OF True])+
next
  case False
  then have n: "f \<noteq> ''exerciseName''" "f \<noteq> ''Exercise__c''" by simp_all
  show ?thesis unfolding coerced_def
    by (rule coerce_raw_num) (rule get_field_num [OF n])+
qed

lemma compare_sets_spec: "compare_sets f d a b = spec_compare f d a b"
proof -
  have "three_way (coerced f a) (coerced f b)
        = spec_three_way (spec_coerce (get_field f a)) (spec_coerce (get_field f b))"
    unfolding three_way_def spec_three_way_def coerced_spec [of f]
    using js_gt_asym [of "spec_coerce (get_field f a)" "spec_coerce (get_field f b)"] by auto
  then show ?thesis
    unfolding compare_sets_three_way spec_compare_def reverse_of_def
    by (cases "d = ''desc''") simp_all
qed

text \<open>
  Sets the comparator holds equal keep the order they had: the sort is stable, as the
  language requires of \<^verbatim>\<open>Array.prototype.sort\<close>.
\<close>

lemma filter_insert_sorted:
  assumes "\<And>a b. P a \<Longrightarrow> P b \<Longrightarrow> cmp a b \<le> 0"
  shows "filter P (insert_sorted cmp x ys) = (if P x then x # filter P ys else filter P ys)"
proof (induction ys)
  case Nil
  show ?case by simp
next
  case (Cons y ys)
  show ?case
  proof (cases "cmp x y \<le> 0")
    case True
    then show ?thesis by simp
  next
    case False
    then have "\<not> (P x \<and> P y)" using assms by blast
    with False Cons show ?thesis by auto
  qed
qed

lemma filter_Array_sort:
  assumes "\<And>a b. P a \<Longrightarrow> P b \<Longrightarrow> cmp a b \<le> 0"
  shows "filter P (Array_sort cmp xs) = filter P xs"
proof (induction xs)
  case Nil
  show ?case by (simp add: Array_sort_def)
next
  case (Cons x xs)
  have "Array_sort cmp (x # xs) = insert_sorted cmp x (Array_sort cmp xs)"
    by (simp add: Array_sort_def)
  with Cons show ?case by (simp add: filter_insert_sorted [of P cmp, OF assms])
qed

lemma compare_sets_equal_class:
  assumes xa: "compare_sets f d x a = 0" and xb: "compare_sets f d x b = 0"
  shows "compare_sets f d a b \<le> 0"
proof -
  have gen: "three_way (coerced f a) (coerced f b) = 0"
    if k: "\<And>a b. js_gt (coerced f a) (coerced f b) = (k (coerced f b) < k (coerced f a))"
    for k :: "jsval \<Rightarrow> 'k::linorder"
  proof -
    from xa xb reverse_of_cases [of d]
    have "three_way (coerced f x) (coerced f a) = 0" "three_way (coerced f x) (coerced f b) = 0"
      unfolding compare_sets_three_way by auto
    then have "k (coerced f x) = k (coerced f a)" "k (coerced f x) = k (coerced f b)"
      using three_way_key [of f k x a, OF k] three_way_key [of f k x b, OF k]
      by (simp_all add: order_antisym)
    then have "k (coerced f a) = k (coerced f b)" by simp
    then have "three_way (coerced f a) (coerced f b) \<le> 0" "0 \<le> three_way (coerced f a) (coerced f b)"
      using three_way_key [of f k a b, OF k] by simp_all
    then show ?thesis by simp
  qed
  have "three_way (coerced f a) (coerced f b) = 0"
    using coerced_keys [of f]
  proof
    assume "\<forall>a b. js_gt (coerced f a) (coerced f b) = (num_key (coerced f b) < num_key (coerced f a))"
    then show ?thesis by (intro gen [of num_key]) simp
  next
    assume "\<forall>a b. js_gt (coerced f a) (coerced f b) = (str_key (coerced f b) < str_key (coerced f a))"
    then show ?thesis by (intro gen [of str_key]) simp
  qed
  then show ?thesis unfolding compare_sets_three_way by simp
qed

lemma sortData_stable:
  "filter (\<lambda>y. compare_sets f d x y = 0) (loggedSets (sortData f d c))
     = filter (\<lambda>y. compare_sets f d x y = 0) (loggedSets c)"
  unfolding sortData_def
  using filter_Array_sort [of "\<lambda>y. compare_sets f d x y = 0" "compare_sets f d" "loggedSets c"]
    compare_sets_equal_class [of f d x]
  by simp

lemma sortData_examples:
  "loggedSets (sortData ''SetCount'' ''asc'' (initial_component\<lparr> loggedSets := sets123 \<rparr>)) = sets123"
  "map SetCount (loggedSets (sortData ''SetCount'' ''desc''
       (sortData ''SetCount'' ''asc'' (initial_component\<lparr> loggedSets := sets123 \<rparr>))))
     = [Some 3, Some 2, Some 1]"
  "loggedSets (sortData ''SetCount'' ''asc'' (sortData ''SetCount'' ''desc''
       (sortData ''SetCount'' ''asc'' (initial_component\<lparr> loggedSets := sets123 \<rparr>))))
     = sets123"
  by (simp_all add: sortData_def Array_sort_def compare_sets_def get_field_def js_or_def
        sets123_def example_set_def)

text \<open>
  Claim C6. For every field name and direction, the comparator of \<^verbatim>\<open>sortData\<close> is the
  one the specification describes (a missing value becomes the empty text, the result is
  the three-way value of \<open>>\<close> and \<open><\<close>, negated for the descending direction); its
  value is \<open>-1\<close>, \<open>0\<close> or \<open>1\<close>; \<^verbatim>\<open>sortData\<close> rearranges the display list, without
  adding or dropping a set, into an order in which no set is followed by one the
  comparator puts before it, and leaves the cache alone; the handler of the table's sort
  event sorts in the same way. Sets with ordinals 1, 2, 3 stay
  in that order under \<^verbatim>\<open>sort('SetCount','asc')\<close>, come out as 3, 2, 1 under a following
  \<^verbatim>\<open>sort('SetCount','desc')\<close>, and are back in the order 1, 2, 3 after sorting ascending
  again.
\<close>

theorem sortData_by_comparator:
  "compare_sets f d a b = spec_compare f d a b
   \<and> compare_sets f d a b \<in> {- 1, 0, 1}
   \<and> compare_sets f ''desc'' a b = - compare_sets f ''asc'' a b
   \<and> mset (loggedSets (sortData f d c)) = mset (loggedSets c)
   \<and> sorted_wrt (\<lambda>x y. compare_sets f d x y \<le> 0) (loggedSets (sortData f d c))
   \<and> allLoggedSets (sortData f d c) = allLoggedSets c
   \<and> loggedSets (handleSortData f d c) = loggedSets (sortData f d c)
   \<and> loggedSets (sortData ''SetCount'' ''asc'' (initial_component\<lparr> loggedSets := sets123 \<rparr>))
       = sets123
   \<and> map SetCount (loggedSets (sortData ''SetCount'' ''desc''
         (sortData ''SetCount'' ''asc'' (initial_component\<lparr> loggedSets := sets123 \<rparr>))))
       = [Some 3, Some 2, Some 1]
   \<and> loggedSets (sortData ''SetCount'' ''asc'' (sortData ''SetCount'' ''desc''
         (sortData ''SetCount'' ''asc'' (initial_component\<lparr> loggedSets := sets123 \<rparr>))))
       = sets123"
proof -
  have perm: "mset (loggedSets (sortData f d c)) = mset (loggedSets c)"
    by (simp add: sortData_def mset_Array_sort)
  have sorted: "sorted_wrt (\<lambda>x y. compare_sets f d x y \<le> 0) (loggedSets (sortData f d c))"
    unfolding sortData_def
    using sorted_Array_sort [of "compare_sets f d" "loggedSets c",
        OF compare_sets_total compare_sets_trans]
    by simp
  have cache: "allLoggedSets (sortData f d c) = allLoggedSets c"
    by (simp add: sortData_def)
  have desc: "compare_sets f ''desc'' a b = - compare_sets f ''asc'' a b"
    by (rule compare_sets_desc) simp
  have handler: "loggedSets (handleSortData f d c) = loggedSets (sortData f d c)"
    by (simp add: handleSortData_def sortData_def Let_def)
  from perm sorted cache desc handler compare_sets_spec [of f d a b] compare_sets_range [of f d a b]
    sortData_examples
  show ?thesis by blast
qed

section \<open>Properties of the handlers\<close>

lemma remote_calls_simps:
  "remote_calls [] = []"
  "remote_calls (Call r s # evs) = r # remote_calls evs"
  "remote_calls (ShowToast t m v # evs) = remote_calls evs"
  "remote_calls (ConsoleError m # evs) = remote_calls evs"
  "remote_calls (ConfirmPrompt m # evs) = remote_calls evs"
  "remote_calls (ReportValidity i # evs) = remote_calls evs"
  "remote_calls (SetCustomValidity i m # evs) = remote_calls evs"
  "remote_calls (RefreshApex xs # evs) = remote_calls evs"
  "remote_calls (evs @ evs') = remote_calls evs @ remote_calls evs'"
  by (simp_all add: remote_calls_def)

lemma call_snapshots_simps:
  "call_snapshots [] = []"
  "call_snapshots (Call r s # evs) = s # call_snapshots evs"
  "call_snapshots (ShowToast t m v # evs) = call_snapshots evs"
  "call_snapshots (ConsoleError m # evs) = call_snapshots evs"
  "call_snapshots (ConfirmPrompt m # evs) = call_snapshots evs"
  "call_snapshots (ReportValidity i # evs) = call_snapshots evs"
  "call_snapshots (SetCustomValidity i m # evs) = call_snapshots evs"
  "call_snapshots (RefreshApex xs # evs) = call_snapshots evs"
  "call_snapshots (evs @ evs') = call_snapshots evs @ call_snapshots evs'"
  by (simp_all add: call_snapshots_def)

lemma toasts_simps:
  "toasts [] = []"
  "toasts (Call r s # evs) = toasts evs"
  "toasts (ShowToast t m v # evs) = (t, m, v) # toasts evs"
  "toasts (ConsoleError m # evs) = toasts evs"
  "toasts (ConfirmPrompt m # evs) = toasts evs"
  "toasts (ReportValidity i # evs) = toasts evs"
  "toasts (SetCustomValidity i m # evs) = toasts evs"
  "toasts (RefreshApex xs # evs) = toasts evs"
  "toasts (evs @ evs') = toasts evs @ toasts evs'"
  by (simp_all add: toasts_def)

text \<open>
  Claim C10. \<^verbatim>\<open>handleCreateSession\<close>, whether the remote call resolves or is rejected,
  leaves the cache, the display list and the four statistics as they were, and its only
  remote call is the creation of the session: it loads no sets.
\<close>

theorem handleCreateSession_frame: "allLoggedSets (fst (handleCreateSession e c)) = allLoggedSets c
  \<and> loggedSets (fst (handleCreateSession e c)) = loggedSets c
  \<and> shown_statistics (fst (handleCreateSession e c)) = shown_statistics c
  \<and> remote_calls (snd (handleCreateSession e c)) = [CreateWorkoutSession]"
  by (simp add: handleCreateSession_def shown_statistics_def remote_calls_simps Let_def split: sum.splits)

lemma loadWorkoutSets_isLoading: "\<not> isLoading (fst (loadWorkoutSets e c))"
  by (simp add: loadWorkoutSets_def Let_def split: sum.splits)

lemma loadMuscleGroups_isLoading: "isLoading (fst (loadMuscleGroups e c)) = isLoading c"
  by (simp add: loadMuscleGroups_def split: sum.splits)

lemma initializeLogger_isLoading: "\<not> isLoading (fst (initializeLogger e c))"
  by (simp add: initializeLogger_def Let_def split: sum.splits option.splits prod.splits)

lemma handleCreateSession_isLoading: "\<not> isLoading (fst (handleCreateSession e c))"
  by (simp add: handleCreateSession_def Let_def split: sum.splits)


lemma createWorkoutSet_args_isLoading:
  "createWorkoutSet_args (c\<lparr> isLoading := b \<rparr>) = createWorkoutSet_args c"
  by (simp add: createWorkoutSet_args_def)

lemma handleAddSet_invalid:
  "\<not> fst (validateForm e) \<Longrightarrow> handleAddSet e c = (c, snd (validateForm e))"
  by (cases "validateForm e") (simp add: handleAddSet_def)

lemma handleAddSet_rejected:
  "fst (validateForm e) \<Longrightarrow> createWorkoutSet e (createWorkoutSet_args c) = Inl err \<Longrightarrow>
   handleAddSet e c =
     (c\<lparr> isLoading := False \<rparr>,
      snd (validateForm e) @
        [Call (CreateWorkoutSet (createWorkoutSet_args c)) (c\<lparr> isLoading := True \<rparr>),
         ShowToast ''Error'' ''Failed to add workout set'' ''error'',
         ConsoleError ''Error adding set:''])"
  by (cases "validateForm e") (simp add: handleAddSet_def Let_def createWorkoutSet_args_isLoading)

lemma handleAddSet_created:
  "fst (validateForm e) \<Longrightarrow> createWorkoutSet e (createWorkoutSet_args c) = Inr u \<Longrightarrow>
   handleAddSet e c =
     (let c2 = c\<lparr> isLoading := True, reps := None, weight := None, rpe := None, notes_field := None \<rparr>
      in ((fst (loadWorkoutSets e c2))\<lparr> isLoading := False \<rparr>,
          snd (validateForm e) @ [Call (CreateWorkoutSet (createWorkoutSet_args c)) (c\<lparr> isLoading := True \<rparr>)]
            @ snd (handleClearForm e c) @ [RefreshApex (allLoggedSets c)]
            @ snd (loadWorkoutSets e c2)
            @ [ShowToast ''Success'' ''Workout set added successfully'' ''success'']))"
  by (cases "validateForm e")
     (simp add: handleAddSet_def handleClearForm_def Let_def createWorkoutSet_args_isLoading
        split: prod.splits)

lemma handleAddSet_isLoading: "fst (validateForm e) \<Longrightarrow> \<not> isLoading (fst (handleAddSet e c))"
  by (cases "createWorkoutSet e (createWorkoutSet_args c)")
     (simp_all add: handleAddSet_rejected handleAddSet_created Let_def)

lemma handleEndSession_declined:
  "\<not> confirm e end_session_prompt \<Longrightarrow> handleEndSession e c = (c, [ConfirmPrompt end_session_prompt])"
  by (simp add: handleEndSession_def)

lemma handleEndSession_rejected:
  "confirm e end_session_prompt \<Longrightarrow> endWorkoutSession e (sessionId c) = Inl err \<Longrightarrow>
   handleEndSession e c =
     (c\<lparr> isLoading := False \<rparr>,
      [ConfirmPrompt end_session_prompt,
       Call (EndWorkoutSession (sessionId c)) (c\<lparr> isLoading := True \<rparr>),
       ShowToast ''Error'' ''Failed to end workout session'' ''error'',
       ConsoleError ''Error ending session:''])"
  by (simp add: handleEndSession_def Let_def)

lemma handleEndSession_closed:
  "confirm e end_session_prompt \<Longrightarrow> endWorkoutSession e (sessionId c) = Inr u \<Longrightarrow>
   handleEndSession e c =
     (c\<lparr> sessionId := None, sessionExists := False, sessionDate := [],
         loggedSets := [], allLoggedSets := [], isLoading := False \<rparr>,
      [ConfirmPrompt end_session_prompt,
       Call (EndWorkoutSession (sessionId c)) (c\<lparr> isLoading := True \<rparr>),
       ShowToast ''Success'' ''Workout session ended successfully'' ''success''])"
  by (simp add: handleEndSession_def Let_def)

lemma handleEndSession_isLoading: "confirm e end_session_prompt \<Longrightarrow> \<not> isLoading (fst (handleEndSession e c))"
  by (cases "endWorkoutSession e (sessionId c)")
     (simp_all add: handleEndSession_rejected handleEndSession_closed)

text \<open>
  Claim C9. When \<^verbatim>\<open>initializeLogger\<close>, \<^verbatim>\<open>loadWorkoutSets\<close> or \<^verbatim>\<open>handleCreateSession\<close>
  has run, whatever the remote calls answered, \<open>isLoading\<close> is false; the same holds for
  \<^verbatim>\<open>handleAddSet\<close> once the form is valid and for \<^verbatim>\<open>handleEndSession\<close> once the user has
  accepted, which are the runs of these two handlers that set the flag.
\<close>

theorem isLoading_cleared: "\<not> isLoading (fst (initializeLogger e c))
  \<and> \<not> isLoading (fst (loadWorkoutSets e c))
  \<and> \<not> isLoading (fst (handleCreateSession e c))
  \<and> (fst (validateForm e) \<longrightarrow> \<not> isLoading (fst (handleAddSet e c)))
  \<and> (confirm e end_session_prompt \<longrightarrow> \<not> isLoading (fst (handleEndSession e c)))"
  by (simp add: initializeLogger_isLoading loadWorkoutSets_isLoading handleCreateSession_isLoading
        handleAddSet_isLoading handleEndSession_isLoading)


lemma validate_rejecting: "validateForm rejecting_env = (True, [])"
  by (simp add: validateForm_def rejecting_env_def filled_input_def truthy_str_def)

lemma validate_declining: "validateForm declining_env = (False, [ReportValidity 0])"
  by (simp add: validateForm_def declining_env_def resolving_env_def empty_input_def truthy_str_def)

text \<open>
  The flag is set before the run and both remote calls are rejected.
\<close>

theorem isLoading_cleared_witness:
  "fst (validateForm rejecting_env) \<and> confirm rejecting_env end_session_prompt
   \<and> isLoading (loaded_component\<lparr> isLoading := True \<rparr>)
   \<and> \<not> isLoading (fst (handleAddSet rejecting_env (loaded_component\<lparr> isLoading := True \<rparr>)))
   \<and> \<not> isLoading (fst (handleEndSession rejecting_env (loaded_component\<lparr> isLoading := True \<rparr>)))"
  using isLoading_cleared [of rejecting_env "loaded_component\<lparr> isLoading := True \<rparr>"]
  by (simp add: validate_rejecting) (simp add: rejecting_env_def)

lemma handleMuscleGroupChange_none:
  "\<not> truthy_str v \<Longrightarrow>
   handleMuscleGroupChange e v c =
     (c\<lparr> selectedMuscleGroup := v, selectedExerciseId := None, exerciseOptions := [] \<rparr>, [])"
  by (simp add: handleMuscleGroupChange_def Let_def)

lemma handleMuscleGroupChange_rejected:
  "truthy_str v \<Longrightarrow> getExercisesByMuscleGroup e v = Inl err \<Longrightarrow>
   handleMuscleGroupChange e v c =
     (c\<lparr> selectedMuscleGroup := v, selectedExerciseId := None, exerciseOptions := [] \<rparr>,
      [Call (GetExercisesByMuscleGroup v)
         (c\<lparr> selectedMuscleGroup := v, selectedExerciseId := None, exerciseOptions := [] \<rparr>),
       ConsoleError ''Error loading exercises:''])"
  by (simp add: handleMuscleGroupChange_def Let_def)

lemma handleMuscleGroupChange_resolved:
  "truthy_str v \<Longrightarrow> getExercisesByMuscleGroup e v = Inr exercises \<Longrightarrow>
   handleMuscleGroupChange e v c =
     (c\<lparr> selectedMuscleGroup := v, selectedExerciseId := None,
         exerciseOptions := map (\<lambda>ex. \<lparr> label = exercise_Name ex, item_value = exercise_Id ex \<rparr>) exercises \<rparr>,
      [Call (GetExercisesByMuscleGroup v)
         (c\<lparr> selectedMuscleGroup := v, selectedExerciseId := None, exerciseOptions := [] \<rparr>)])"
  by (simp add: handleMuscleGroupChange_def Let_def)


text \<open>
  Claim C8. \<^verbatim>\<open>handleMuscleGroupChange\<close> stores the group and clears the chosen exercise;
  the exercises are requested exactly when a group is chosen, once, and at the moment of
  the request the chosen exercise and the option list are already cleared; with no group
  chosen or with the request rejected the option list ends empty, and with the request
  resolved it holds the fetched exercises.
\<close>

theorem handleMuscleGroupChange_flow:
  "selectedMuscleGroup (fst (handleMuscleGroupChange e v c)) = v
   \<and> selectedExerciseId (fst (handleMuscleGroupChange e v c)) = None
   \<and> remote_calls (snd (handleMuscleGroupChange e v c))
       = (if truthy_str v then [GetExercisesByMuscleGroup v] else [])
   \<and> call_snapshots (snd (handleMuscleGroupChange e v c))
       = (if truthy_str v
          then [c\<lparr> selectedMuscleGroup := v, selectedExerciseId := None, exerciseOptions := [] \<rparr>]
          else [])
   \<and> (\<not> truthy_str v \<or> getExercisesByMuscleGroup e v = Inl RemoteFailure \<longrightarrow>
        exerciseOptions (fst (handleMuscleGroupChange e v c)) = [])
   \<and> (\<forall>exercises. truthy_str v \<and> getExercisesByMuscleGroup e v = Inr exercises \<longrightarrow>
        exerciseOptions (fst (handleMuscleGroupChange e v c))
          = map (\<lambda>ex. \<lparr> label = exercise_Name ex, item_value = exercise_Id ex \<rparr>) exercises)"
proof (cases "truthy_str v")
  case False
  then show ?thesis by (simp add: handleMuscleGroupChange_none remote_calls_simps call_snapshots_simps)
next
  case True
  show ?thesis
  proof (cases "getExercisesByMuscleGroup e v")
    case (Inl err)
    with True show ?thesis
      by (simp add: handleMuscleGroupChange_rejected remote_calls_simps call_snapshots_simps)
  next
    case (Inr exercises)
    with True show ?thesis
      by (simp add: handleMuscleGroupChange_resolved remote_calls_simps call_snapshots_simps)
  qed
qed

text \<open>
  A component with one exercise option loaded, the group changed to Legs.
\<close>

theorem handleMuscleGroupChange_flow_witness:
  "truthy_str (Some ''Legs'')
   \<and> getExercisesByMuscleGroup rejecting_env (Some ''Legs'') = Inl RemoteFailure
   \<and> exerciseOptions loaded_component \<noteq> []
   \<and> exerciseOptions (fst (handleMuscleGroupChange rejecting_env (Some ''Legs'') loaded_component)) = []
   \<and> getExercisesByMuscleGroup resolving_env (Some ''Legs'')
       = Inr [\<lparr> exercise_Id = ''E1'', exercise_Name = ''squat'' \<rparr>]
   \<and> exerciseOptions (fst (handleMuscleGroupChange resolving_env (Some ''Legs'') loaded_component))
       = [\<lparr> label = ''squat'', item_value = ''E1'' \<rparr>]"
  using handleMuscleGroupChange_flow [of rejecting_env "Some ''Legs''" loaded_component]
        handleMuscleGroupChange_flow [of resolving_env "Some ''Legs''" loaded_component]
  by (simp add: truthy_str_def rejecting_env_def resolving_env_def loaded_component_def)

text \<open>
  Claim C4. In \<^verbatim>\<open>handleEndSession\<close>: when the user declines, the component is unchanged
  and no remote call is made; when the user accepts, the one remote call is the closure
  of the current session, and when it is issued the component differs from the one
  before only in the loading flag, so nothing is cleared yet; when the closure resolves,
  the session id, flag and date and both set lists are cleared; when it is rejected, the
  error toast is shown and the component is as before but for the loading flag.
\<close>

theorem handleEndSession_flow:
  "(\<not> confirm e end_session_prompt \<longrightarrow>
      fst (handleEndSession e c) = c \<and> remote_calls (snd (handleEndSession e c)) = [])
   \<and> (confirm e end_session_prompt \<longrightarrow>
      remote_calls (snd (handleEndSession e c)) = [EndWorkoutSession (sessionId c)]
      \<and> call_snapshots (snd (handleEndSession e c)) = [c\<lparr> isLoading := True \<rparr>])
   \<and> (confirm e end_session_prompt \<and> endWorkoutSession e (sessionId c) = Inr () \<longrightarrow>
      fst (handleEndSession e c)
        = c\<lparr> sessionId := None, sessionExists := False, sessionDate := [],
             loggedSets := [], allLoggedSets := [], isLoading := False \<rparr>)
   \<and> (confirm e end_session_prompt \<and> endWorkoutSession e (sessionId c) = Inl RemoteFailure \<longrightarrow>
      fst (handleEndSession e c) = c\<lparr> isLoading := False \<rparr>
      \<and> toasts (snd (handleEndSession e c)) = [(''Error'', ''Failed to end workout session'', ''error'')])"
proof (cases "confirm e end_session_prompt")
  case False
  then show ?thesis by (simp add: handleEndSession_declined remote_calls_simps)
next
  case True
  show ?thesis
  proof (cases "endWorkoutSession e (sessionId c)")
    case (Inl err)
    with True show ?thesis
      by (simp add: handleEndSession_rejected remote_calls_simps call_snapshots_simps toasts_simps)
  next
    case (Inr u)
    with True show ?thesis
      by (simp add: handleEndSession_closed remote_calls_simps call_snapshots_simps toasts_simps)
  qed
qed

text \<open>
  The three cases on a component with an open session and three sets.
\<close>

theorem handleEndSession_flow_witness:
  "\<not> confirm declining_env end_session_prompt
   \<and> fst (handleEndSession declining_env loaded_component) = loaded_component
   \<and> confirm resolving_env end_session_prompt
   \<and> endWorkoutSession resolving_env (sessionId loaded_component) = Inr ()
   \<and> sessionId loaded_component = Some ''S1''
   \<and> sessionId (fst (handleEndSession resolving_env loaded_component)) = None
   \<and> allLoggedSets (fst (handleEndSession resolving_env loaded_component)) = []
   \<and> confirm rejecting_env end_session_prompt
   \<and> endWorkoutSession rejecting_env (sessionId loaded_component) = Inl RemoteFailure
   \<and> fst (handleEndSession rejecting_env loaded_component) = loaded_component"
proof -
  have l: "loaded_component\<lparr> isLoading := False \<rparr> = loaded_component"
    by (simp add: loaded_component_def initial_component_def)
  have s: "sessionId loaded_component = Some ''S1''"
    by (simp add: loaded_component_def)
  show ?thesis
    using handleEndSession_flow [of declining_env loaded_component] handleEndSession_flow [of resolving_env loaded_component]
      handleEndSession_flow [of rejecting_env loaded_component]
    by (simp add: l s declining_env_def resolving_env_def rejecting_env_def)
qed


lemma validateForm_fold_quiet:
  "remote_calls (snd (fold (\<lambda>(i, inp) (isValid, evs).
             if required inp \<and> \<not> truthy_str (input_value inp)
             then (False, evs @ [ReportValidity i])
             else (isValid, evs)) xs (b, evs0))) = remote_calls evs0
   \<and> call_snapshots (snd (fold (\<lambda>(i, inp) (isValid, evs).
             if required inp \<and> \<not> truthy_str (input_value inp)
             then (False, evs @ [ReportValidity i])
             else (isValid, evs)) xs (b, evs0))) = call_snapshots evs0
   \<and> toasts (snd (fold (\<lambda>(i, inp) (isValid, evs).
             if required inp \<and> \<not> truthy_str (input_value inp)
             then (False, evs @ [ReportValidity i])
             else (isValid, evs)) xs (b, evs0))) = toasts evs0"
  by (induction xs arbitrary: b evs0)
     (auto simp: remote_calls_simps call_snapshots_simps toasts_simps)

lemma validateForm_quiet:
  "remote_calls (snd (validateForm e)) = []"
  "call_snapshots (snd (validateForm e)) = []"
  "toasts (snd (validateForm e)) = []"
  unfolding validateForm_def using validateForm_fold_quiet [of "enumerate 0 (template_inputs e)" True "[]"]
  by (simp_all add: remote_calls_simps call_snapshots_simps toasts_simps)

lemma clear_events_quiet:
  "remote_calls (concat (map (\<lambda>(i, inp). [SetCustomValidity i [], ReportValidity i]) xs)) = []
   \<and> call_snapshots (concat (map (\<lambda>(i, inp). [SetCustomValidity i [], ReportValidity i]) xs)) = []
   \<and> toasts (concat (map (\<lambda>(i, inp). [SetCustomValidity i [], ReportValidity i]) xs)) = []"
  by (induction xs) (auto simp: remote_calls_simps call_snapshots_simps toasts_simps)

lemma handleClearForm_quiet:
  "remote_calls (snd (handleClearForm e c)) = []"
  "call_snapshots (snd (handleClearForm e c)) = []"
  "toasts (snd (handleClearForm e c)) = []"
  unfolding handleClearForm_def by (simp_all add: clear_events_quiet)

lemma loadWorkoutSets_resolved:
  "getWorkoutSets e (sessionId c) = Inr sets \<Longrightarrow>
   loadWorkoutSets e c =
     ((calculateStatistics (c\<lparr> isLoading := True, allLoggedSets := sets, loggedSets := sets \<rparr>))
        \<lparr> isLoading := False \<rparr>,
      [Call (GetWorkoutSets (sessionId c)) (c\<lparr> isLoading := True \<rparr>)])"
  by (simp add: loadWorkoutSets_def Let_def)

lemma loadWorkoutSets_rejected:
  "getWorkoutSets e (sessionId c) = Inl err \<Longrightarrow>
   loadWorkoutSets e c =
     (c\<lparr> isLoading := False \<rparr>,
      [Call (GetWorkoutSets (sessionId c)) (c\<lparr> isLoading := True \<rparr>),
       ShowToast ''Error'' ''Failed to load workout sets'' ''error'',
       ConsoleError ''Error loading sets:''])"
  by (simp add: loadWorkoutSets_def Let_def)

lemma loadWorkoutSets_calls:
  "remote_calls (snd (loadWorkoutSets e c)) = [GetWorkoutSets (sessionId c)]"
  "call_snapshots (snd (loadWorkoutSets e c)) = [c\<lparr> isLoading := True \<rparr>]"
  by (cases "getWorkoutSets e (sessionId c)";
      simp add: loadWorkoutSets_resolved loadWorkoutSets_rejected remote_calls_simps call_snapshots_simps)+

lemma loadWorkoutSets_form:
  "reps (fst (loadWorkoutSets e c)) = reps c"
  "weight (fst (loadWorkoutSets e c)) = weight c"
  "rpe (fst (loadWorkoutSets e c)) = rpe c"
  "notes_field (fst (loadWorkoutSets e c)) = notes_field c"
  "sessionId (fst (loadWorkoutSets e c)) = sessionId c"
  "sessionExists (fst (loadWorkoutSets e c)) = sessionExists c"
  "sessionDate (fst (loadWorkoutSets e c)) = sessionDate c"
  by (cases "getWorkoutSets e (sessionId c)";
      simp add: loadWorkoutSets_resolved loadWorkoutSets_rejected calculateStatistics_def)+

lemma loadWorkoutSets_in_sync:
  "getWorkoutSets e (sessionId c) = Inr sets \<Longrightarrow>
   allLoggedSets (fst (loadWorkoutSets e c)) = sets
   \<and> loggedSets (fst (loadWorkoutSets e c)) = sets
   \<and> totalSets (fst (loadWorkoutSets e c)) = length sets
   \<and> uniqueExercises (fst (loadWorkoutSets e c)) = card (set (map Exercise__c sets))
   \<and> totalReps (fst (loadWorkoutSets e c))
       = (\<Sum>s\<leftarrow>sets. case Reps s of None \<Rightarrow> 0 | Some r \<Rightarrow> r)
   \<and> maxWeight (fst (loadWorkoutSets e c)) = Max (insert 0 (set (map weight_or_zero sets)))"
  using calculateStatistics_fields
    [of "c\<lparr> isLoading := True, allLoggedSets := sets, loggedSets := sets \<rparr>"]
  by (simp add: loadWorkoutSets_resolved del: set_map) (simp add: calculateStatistics_def)

lemma loadWorkoutSets_kept:
  "getWorkoutSets e (sessionId c) = Inl err \<Longrightarrow>
   allLoggedSets (fst (loadWorkoutSets e c)) = allLoggedSets c
   \<and> loggedSets (fst (loadWorkoutSets e c)) = loggedSets c
   \<and> shown_statistics (fst (loadWorkoutSets e c)) = shown_statistics c"
  by (simp add: loadWorkoutSets_rejected shown_statistics_def)

text \<open>
  Claim C7. In \<^verbatim>\<open>handleAddSet\<close>: with an invalid form the component is unchanged and
  no remote call is made; with a valid form and the creation resolved, reps, weight, RPE
  and notes are cleared, the remote calls are the creation followed by the fetch of the
  sets of the session, the fetch is issued when the form is already cleared, and when
  the fetch resolves, cache and display list are the fetched list, whatever was held
  before, and the four statistics are the number of fetched sets, the number of distinct
  values of their exercise field, the sum of their rep counts and the largest of zero and
  their weights, while a rejected fetch leaves lists and statistics as they were; with
  the creation rejected, the error toast is shown, no
  further call is made and the component, the form included, is as before but for the
  loading flag.
\<close>

theorem handleAddSet_flow:
  "(\<not> fst (validateForm e) \<longrightarrow>
      fst (handleAddSet e c) = c \<and> remote_calls (snd (handleAddSet e c)) = [])
   \<and> (fst (validateForm e) \<and> createWorkoutSet e (createWorkoutSet_args c) = Inr () \<longrightarrow>
      reps (fst (handleAddSet e c)) = None \<and> weight (fst (handleAddSet e c)) = None
      \<and> rpe (fst (handleAddSet e c)) = None \<and> notes_field (fst (handleAddSet e c)) = None
      \<and> remote_calls (snd (handleAddSet e c))
          = [CreateWorkoutSet (createWorkoutSet_args c), GetWorkoutSets (sessionId c)]
      \<and> call_snapshots (snd (handleAddSet e c))
          = [c\<lparr> isLoading := True \<rparr>,
             c\<lparr> isLoading := True, reps := None, weight := None, rpe := None, notes_field := None \<rparr>]
      \<and> (\<forall>sets. getWorkoutSets e (sessionId c) = Inr sets \<longrightarrow>
            allLoggedSets (fst (handleAddSet e c)) = sets
            \<and> loggedSets (fst (handleAddSet e c)) = sets
            \<and> totalSets (fst (handleAddSet e c)) = length sets
            \<and> uniqueExercises (fst (handleAddSet e c)) = card (set (map Exercise__c sets))
            \<and> totalReps (fst (handleAddSet e c))
                = (\<Sum>s\<leftarrow>sets. case Reps s of None \<Rightarrow> 0 | Some r \<Rightarrow> r)
            \<and> maxWeight (fst (handleAddSet e c))
                = Max (insert 0 (set (map weight_or_zero sets))))
      \<and> (getWorkoutSets e (sessionId c) = Inl RemoteFailure \<longrightarrow>
            allLoggedSets (fst (handleAddSet e c)) = allLoggedSets c
            \<and> loggedSets (fst (handleAddSet e c)) = loggedSets c
            \<and> shown_statistics (fst (handleAddSet e c)) = shown_statistics c))
   \<and> (fst (validateForm e) \<and> createWorkoutSet e (createWorkoutSet_args c) = Inl RemoteFailure \<longrightarrow>
      fst (handleAddSet e c) = c\<lparr> isLoading := False \<rparr>
      \<and> remote_calls (snd (handleAddSet e c)) = [CreateWorkoutSet (createWorkoutSet_args c)]
      \<and> toasts (snd (handleAddSet e c)) = [(''Error'', ''Failed to add workout set'', ''error'')])"
proof (cases "fst (validateForm e)")
  case False
  then show ?thesis by (simp add: handleAddSet_invalid validateForm_quiet)
next
  case True
  show ?thesis
  proof (cases "createWorkoutSet e (createWorkoutSet_args c)")
    case (Inl err)
    with True show ?thesis
      by (simp add: handleAddSet_rejected validateForm_quiet remote_calls_simps toasts_simps)
  next
    case (Inr u)
    let ?c2 = "c\<lparr> isLoading := True, reps := None, weight := None, rpe := None, notes_field := None \<rparr>"
    have A: "handleAddSet e c =
      ((fst (loadWorkoutSets e ?c2))\<lparr> isLoading := False \<rparr>,
          snd (validateForm e) @ [Call (CreateWorkoutSet (createWorkoutSet_args c)) (c\<lparr> isLoading := True \<rparr>)]
            @ snd (handleClearForm e c) @ [RefreshApex (allLoggedSets c)]
            @ snd (loadWorkoutSets e ?c2)
            @ [ShowToast ''Success'' ''Workout set added successfully'' ''success''])"
      using handleAddSet_created [OF True Inr] by (simp add: Let_def)
    have form: "reps (fst (handleAddSet e c)) = None" "weight (fst (handleAddSet e c)) = None"
      "rpe (fst (handleAddSet e c)) = None" "notes_field (fst (handleAddSet e c)) = None"
      by (simp_all add: A loadWorkoutSets_form)
    have calls: "remote_calls (snd (handleAddSet e c))
          = [CreateWorkoutSet (createWorkoutSet_args c), GetWorkoutSets (sessionId c)]"
      by (simp add: A remote_calls_simps validateForm_quiet handleClearForm_quiet loadWorkoutSets_calls)
    have snaps: "call_snapshots (snd (handleAddSet e c)) = [c\<lparr> isLoading := True \<rparr>, ?c2]"
      by (simp add: A call_snapshots_simps validateForm_quiet handleClearForm_quiet loadWorkoutSets_calls)
    have sync: "allLoggedSets (fst (handleAddSet e c)) = sets
            \<and> loggedSets (fst (handleAddSet e c)) = sets
            \<and> totalSets (fst (handleAddSet e c)) = length sets
            \<and> uniqueExercises (fst (handleAddSet e c)) = card (set (map Exercise__c sets))
            \<and> totalReps (fst (handleAddSet e c))
                = (\<Sum>s\<leftarrow>sets. case Reps s of None \<Rightarrow> 0 | Some r \<Rightarrow> r)
            \<and> maxWeight (fst (handleAddSet e c))
                = Max (insert 0 (set (map weight_or_zero sets)))"
      if "getWorkoutSets e (sessionId c) = Inr sets" for sets
      using loadWorkoutSets_in_sync [of e ?c2 sets] that
      by (simp add: A del: set_map)
    have kept: "allLoggedSets (fst (handleAddSet e c)) = allLoggedSets c
            \<and> loggedSets (fst (handleAddSet e c)) = loggedSets c
            \<and> shown_statistics (fst (handleAddSet e c)) = shown_statistics c"
      if "getWorkoutSets e (sessionId c) = Inl RemoteFailure"
      using loadWorkoutSets_kept [of e ?c2 RemoteFailure] that
      by (simp add: A shown_statistics_def)
    from True Inr form calls snaps sync kept show ?thesis by (simp del: set_map)
  qed
qed


text \<open>
  The three cases on a component whose form holds what the user typed.
\<close>

theorem handleAddSet_flow_witness:
  "\<not> fst (validateForm declining_env)
   \<and> fst (handleAddSet declining_env loaded_component) = loaded_component
   \<and> fst (validateForm added_env)
   \<and> createWorkoutSet added_env (createWorkoutSet_args loaded_component) = Inr ()
   \<and> getWorkoutSets added_env (sessionId loaded_component) = Inr sets1234
   \<and> reps loaded_component = Some ''10''
   \<and> reps (fst (handleAddSet added_env loaded_component)) = None
   \<and> allLoggedSets loaded_component = sets123
   \<and> shown_statistics loaded_component = (3, 2, 15, 60)
   \<and> allLoggedSets (fst (handleAddSet added_env loaded_component)) = sets1234
   \<and> shown_statistics (fst (handleAddSet added_env loaded_component)) = (4, 3, 23, 70)
   \<and> fst (validateForm rejecting_env)
   \<and> createWorkoutSet rejecting_env (createWorkoutSet_args loaded_component) = Inl RemoteFailure
   \<and> fst (handleAddSet rejecting_env loaded_component) = loaded_component"
proof -
  have l: "loaded_component\<lparr> isLoading := False \<rparr> = loaded_component"
    by (simp add: loaded_component_def initial_component_def)
  have r: "reps loaded_component = Some ''10''" "allLoggedSets loaded_component = sets123"
    "totalSets loaded_component = 3" "uniqueExercises loaded_component = 2"
    "totalReps loaded_component = 15" "maxWeight loaded_component = 60"
    by (simp_all add: loaded_component_def initial_component_def)
  have v: "validateForm added_env = (True, [])"
    by (simp add: validateForm_def added_env_def resolving_env_def filled_input_def truthy_str_def)
  have e: "createWorkoutSet added_env (createWorkoutSet_args loaded_component) = Inr ()"
    "getWorkoutSets added_env (sessionId loaded_component) = Inr sets1234"
    "createWorkoutSet rejecting_env (createWorkoutSet_args loaded_component) = Inl RemoteFailure"
    by (simp_all add: added_env_def resolving_env_def rejecting_env_def)
  have n: "length sets1234 = 4" "card (set (map Exercise__c sets1234)) = 3"
    "(\<Sum>s\<leftarrow>sets1234. case Reps s of None \<Rightarrow> 0 | Some r \<Rightarrow> r) = 23"
    "Max (insert 0 (set (map weight_or_zero sets1234))) = 70"
    by (simp_all add: sets1234_def sets123_def example_set_def weight_or_zero_def)
  show ?thesis
    using handleAddSet_flow [of declining_env loaded_component]
      handleAddSet_flow [of added_env loaded_component]
      handleAddSet_flow [of rejecting_env loaded_component]
    by (simp add: l r e v n validate_declining validate_rejecting shown_statistics_def
          del: set_map)
qed

lemma loadMuscleGroups_resolved:
  "getMuscleGroups e = Inr groups \<Longrightarrow>
   loadMuscleGroups e c =
     (c\<lparr> muscleGroupOptions := map (\<lambda>group. \<lparr> label = group, item_value = group \<rparr>) groups \<rparr>,
      [Call GetMuscleGroups c])"
  by (simp add: loadMuscleGroups_def)

lemma loadMuscleGroups_rejected:
  "getMuscleGroups e = Inl err \<Longrightarrow>
   loadMuscleGroups e c = (c, [Call GetMuscleGroups c, ConsoleError ''Error loading muscle groups:''])"
  by (simp add: loadMuscleGroups_def)

lemma loadMuscleGroups_calls:
  "remote_calls (snd (loadMuscleGroups e c)) = [GetMuscleGroups]"
  "toasts (snd (loadMuscleGroups e c)) = []"
  by (cases "getMuscleGroups e";
      simp add: loadMuscleGroups_resolved loadMuscleGroups_rejected remote_calls_simps toasts_simps)+

lemma loadMuscleGroups_session:
  "sessionId (fst (loadMuscleGroups e c)) = sessionId c"
  "sessionExists (fst (loadMuscleGroups e c)) = sessionExists c"
  "sessionDate (fst (loadMuscleGroups e c)) = sessionDate c"
  by (cases "getMuscleGroups e"; simp add: loadMuscleGroups_resolved loadMuscleGroups_rejected)+

lemma initializeLogger_rejected:
  "getTodaySession e = Inl err \<Longrightarrow>
   initializeLogger e c =
     (c\<lparr> isLoading := False \<rparr>,
      [Call GetTodaySession (c\<lparr> isLoading := True \<rparr>),
       ShowToast ''Error'' ''Failed to initialize workout logger'' ''error'',
       ConsoleError ''Initialization error:''])"
  by (simp add: initializeLogger_def Let_def)

lemma initializeLogger_no_session:
  "getTodaySession e = Inr None \<Longrightarrow>
   initializeLogger e c =
     ((fst (loadMuscleGroups e (c\<lparr> isLoading := True \<rparr>)))\<lparr> isLoading := False \<rparr>,
      Call GetTodaySession (c\<lparr> isLoading := True \<rparr>)
        # snd (loadMuscleGroups e (c\<lparr> isLoading := True \<rparr>)))"
  by (simp add: initializeLogger_def Let_def split: prod.splits)

lemma initializeLogger_session:
  "getTodaySession e = Inr (Some s) \<Longrightarrow>
   initializeLogger e c =
     (let c2 = c\<lparr> isLoading := True, sessionId := Some (session_Id s), sessionExists := True,
                   sessionDate := formatDate e (Session_Date__c s) \<rparr>;
          c3 = fst (loadWorkoutSets e c2)
      in ((fst (loadMuscleGroups e c3))\<lparr> isLoading := False \<rparr>,
          Call GetTodaySession (c\<lparr> isLoading := True \<rparr>)
            # snd (loadWorkoutSets e c2) @ snd (loadMuscleGroups e c3)))"
  by (simp add: initializeLogger_def Let_def split: prod.splits)

lemma loadWorkoutSets_toasts_not_init:
  "(''Error'', ''Failed to initialize workout logger'', ''error'') \<notin> set (toasts (snd (loadWorkoutSets e c)))"
  by (cases "getWorkoutSets e (sessionId c)";
      simp add: loadWorkoutSets_resolved loadWorkoutSets_rejected toasts_simps)

text \<open>
  Claim C5, as the code has it. In \<^verbatim>\<open>initializeLogger\<close>: when \<^verbatim>\<open>getTodaySession\<close> is
  rejected, it is the only remote call (the muscle groups are not requested), the toast
  of the failed initialisation is shown and the component is as before but for the
  loading flag; when there is no session, session id, flag and date stay as they are, the
  muscle groups are requested and the sets are not; when a session is found, it is
  adopted, its sets and then the muscle groups are requested, and whatever these two
  requests answer, the session stays adopted and the toast of the failed initialisation
  is not shown; and whenever \<^verbatim>\<open>getTodaySession\<close> and \<^verbatim>\<open>getMuscleGroups\<close> both resolve, the
  muscle-group options are the fetched groups.
\<close>

theorem initializeLogger_outcomes:
  "(getTodaySession e = Inl RemoteFailure \<longrightarrow>
      fst (initializeLogger e c) = c\<lparr> isLoading := False \<rparr>
      \<and> remote_calls (snd (initializeLogger e c)) = [GetTodaySession]
      \<and> toasts (snd (initializeLogger e c))
          = [(''Error'', ''Failed to initialize workout logger'', ''error'')])
   \<and> (getTodaySession e = Inr None \<longrightarrow>
      sessionId (fst (initializeLogger e c)) = sessionId c
      \<and> sessionExists (fst (initializeLogger e c)) = sessionExists c
      \<and> sessionDate (fst (initializeLogger e c)) = sessionDate c
      \<and> remote_calls (snd (initializeLogger e c)) = [GetTodaySession, GetMuscleGroups]
      \<and> toasts (snd (initializeLogger e c)) = [])
   \<and> (\<forall>s. getTodaySession e = Inr (Some s) \<longrightarrow>
      sessionId (fst (initializeLogger e c)) = Some (session_Id s)
      \<and> sessionExists (fst (initializeLogger e c))
      \<and> sessionDate (fst (initializeLogger e c)) = formatDate e (Session_Date__c s)
      \<and> remote_calls (snd (initializeLogger e c))
          = [GetTodaySession, GetWorkoutSets (Some (session_Id s)), GetMuscleGroups]
      \<and> (''Error'', ''Failed to initialize workout logger'', ''error'')
          \<notin> set (toasts (snd (initializeLogger e c))))
   \<and> (\<forall>found groups. getTodaySession e = Inr found \<and> getMuscleGroups e = Inr groups \<longrightarrow>
      muscleGroupOptions (fst (initializeLogger e c))
        = map (\<lambda>group. \<lparr> label = group, item_value = group \<rparr>) groups)"
proof (cases "getTodaySession e")
  case (Inl err)
  then show ?thesis by (simp add: initializeLogger_rejected remote_calls_simps toasts_simps)
next
  case (Inr found)
  show ?thesis
  proof (cases found)
    case None
    with Inr show ?thesis
      by (simp add: initializeLogger_no_session remote_calls_simps toasts_simps
            loadMuscleGroups_calls loadMuscleGroups_session loadMuscleGroups_resolved)
  next
    case (Some s)
    with Inr show ?thesis
      by (simp add: initializeLogger_session Let_def remote_calls_simps toasts_simps
            loadMuscleGroups_calls loadMuscleGroups_session loadWorkoutSets_calls
            loadWorkoutSets_form loadWorkoutSets_toasts_not_init loadMuscleGroups_resolved)
  qed
qed

text \<open>
  With \<^verbatim>\<open>getTodaySession\<close> rejected the muscle groups are never requested; with the
  sets of a found session rejected, the toast is that of the failed load and the session
  exists.
\<close>

theorem initializeLogger_failure_counterexample:
  "getTodaySession rejecting_env = Inl RemoteFailure
   \<and> remote_calls (snd (initializeLogger rejecting_env initial_component)) = [GetTodaySession]
   \<and> muscleGroupOptions (fst (initializeLogger rejecting_env initial_component)) = []
   \<and> getWorkoutSets sets_rejected_env (Some ''S1'') = Inl RemoteFailure
   \<and> toasts (snd (initializeLogger sets_rejected_env initial_component))
       = [(''Error'', ''Failed to load workout sets'', ''error'')]
   \<and> sessionExists (fst (initializeLogger sets_rejected_env initial_component))"
  by (simp add: initializeLogger_def loadWorkoutSets_def loadMuscleGroups_def Let_def
        rejecting_env_def sets_rejected_env_def resolving_env_def session1_def
        initial_component_def remote_calls_simps toasts_simps)


text \<open>
  The three cases at the freshly constructed component.
\<close>

theorem initializeLogger_outcomes_witness:
  "getTodaySession rejecting_env = Inl RemoteFailure
   \<and> \<not> sessionExists (fst (initializeLogger rejecting_env initial_component))
   \<and> getTodaySession no_session_env = Inr None
   \<and> \<not> sessionExists (fst (initializeLogger no_session_env initial_component))
   \<and> remote_calls (snd (initializeLogger no_session_env initial_component))
       = [GetTodaySession, GetMuscleGroups]
   \<and> getTodaySession resolving_env = Inr (Some session1)
   \<and> sessionId (fst (initializeLogger resolving_env initial_component)) = Some ''S1''"
proof -
  have e: "getTodaySession rejecting_env = Inl RemoteFailure"
    "getTodaySession no_session_env = Inr None"
    "getTodaySession resolving_env = Inr (Some session1)"
    by (simp_all add: rejecting_env_def no_session_env_def resolving_env_def)
  have i: "\<not> sessionExists initial_component" "\<not> sessionExists (initial_component\<lparr> isLoading := False \<rparr>)"
    by (simp_all add: initial_component_def)
  show ?thesis
    using initializeLogger_outcomes [of rejecting_env initial_component] initializeLogger_outcomes [of no_session_env initial_component]
      initializeLogger_outcomes [of resolving_env initial_component]
    by (simp add: e i session1_def)
qed




















text \<open>
  Claim C2 at an input where the code departs from it. With three sets loaded and the
  statistics in step with them, ending the session empties the cache but leaves the
  statistics at 3 sets, 2 exercises, 15 reps and 60 kg, where those of the empty cache
  are all zero: \<^verbatim>\<open>handleEndSession\<close> does not call \<^verbatim>\<open>calculateStatistics\<close>, which
  \<^verbatim>\<open>loadWorkoutSets\<close> does after it has replaced the cache.
\<close>

theorem handleEndSession_statistics_stale:
  "shown_statistics loaded_component = shown_statistics (calculateStatistics loaded_component)
   \<and> confirm resolving_env end_session_prompt
   \<and> endWorkoutSession resolving_env (sessionId loaded_component) = Inr ()
   \<and> allLoggedSets (fst (handleEndSession resolving_env loaded_component)) = []
   \<and> shown_statistics (fst (handleEndSession resolving_env loaded_component)) = (3, 2, 15, 60)
   \<and> shown_statistics (calculateStatistics (fst (handleEndSession resolving_env loaded_component)))
       = (0, 0, 0, 0)"
proof -
  have e: "confirm resolving_env end_session_prompt"
    "endWorkoutSession resolving_env (sessionId loaded_component) = Inr ()"
    by (simp_all add: resolving_env_def)
  have before: "shown_statistics (calculateStatistics loaded_component) = (3, 2, 15, 60)"
    by (simp add: shown_statistics_def calculateStatistics_def loaded_component_def
          initial_component_def sets123_def example_set_def Set_size_def reps_or_zero_def
          weight_or_zero_def)
  have shown: "shown_statistics loaded_component = (3, 2, 15, 60)"
    by (simp add: shown_statistics_def loaded_component_def initial_component_def)
  have after: "fst (handleEndSession resolving_env loaded_component)
    = loaded_component\<lparr> sessionId := None, sessionExists := False, sessionDate := [],
         loggedSets := [], allLoggedSets := [], isLoading := False \<rparr>"
    by (simp add: handleEndSession_closed [OF e])
  show ?thesis unfolding after using e before shown
    by (simp add: shown_statistics_def calculateStatistics_def Set_size_def)
qed

end
